theory Spec2Isabelle
  imports Complex_Main "HOL-Library.Product_Lexorder"
begin

section \<open>Decimal arithmetic as used by the scoring engine\<close>

text \<open>
  The scoring engine computes with Python's \<^verbatim>\<open>decimal.Decimal\<close> under the default
  context: 28 significant digits, results of division, multiplication and addition
  rounded half-even to that precision.  A Decimal is modelled by its numerical value, a
  rational number; every arithmetic operation of the source is followed by the context
  rounding \<open>round_ctx\<close>.  \<^verbatim>\<open>quantize(Decimal("0.0001"), rounding=ROUND_HALF_UP)\<close> rounds to
  four fractional digits, ties away from zero, and signals \<^verbatim>\<open>InvalidOperation\<close> when the
  result would need more than 28 digits.

  The exceptions are those of Python and of the storage layer.  \<open>OperationalError\<close> is the
  class under which the storage layer reports the failures of the database driver while a
  statement runs: a lock-wait timeout, a deadlock (which is also how a serialization
  failure is reported), and failures that have nothing to do with locks, such as a lost
  connection to the server.
\<close>

datatype dbapi_error =
    LockWaitTimeout
  | Deadlock
  | ServerGone

datatype exc =
    ValueError
  | RuntimeError
  | OperationalError dbapi_error
  | NoResultFound
  | MultipleResultsFound
  | InvalidRequestError
  | DataError
  | AttributeError
  | KeyError
  | InvalidOperation
  | OtherError

definition prec :: nat where
  "prec = 28"

text \<open>The number of decimal digits of a positive integer.\<close>

function ndigits :: "int \<Rightarrow> nat" where
  "ndigits n = (if n < 10 then 1 else Suc (ndigits (n div 10)))"
  by pat_completeness auto
termination
  by (relation "measure nat") auto

declare ndigits.simps [simp del]

definition pow10 :: "int \<Rightarrow> rat" where
  "pow10 i = (if 0 \<le> i then 10 ^ nat i else 1 / 10 ^ nat (- i))"

text \<open>\<open>adjusted x\<close> is the decimal exponent of the most significant digit of \<open>x \<noteq> 0\<close>.\<close>

definition adjusted :: "rat \<Rightarrow> int" where
  "adjusted x =
     (let a = \<bar>x\<bar> in
      if 1 \<le> a then int (ndigits \<lfloor>a\<rfloor>) - 1
      else (let y = 1 / a; d = ndigits \<lfloor>y\<rfloor> in
            if y = 10 ^ (d - 1) then - int (d - 1) else - int d))"

definition round_half_even :: "rat \<Rightarrow> int" where
  "round_half_even y =
     (let f = \<lfloor>y\<rfloor>; d = y - of_int f in
      if d < 1 / 2 then f
      else if 1 / 2 < d then f + 1
      else if even f then f else f + 1)"

definition round_half_up :: "rat \<Rightarrow> int" where
  "round_half_up y = (if 0 \<le> y then \<lfloor>y + 1 / 2\<rfloor> else - \<lfloor>- y + 1 / 2\<rfloor>)"

definition round_ctx :: "rat \<Rightarrow> rat" where
  "round_ctx x =
     (if x = 0 then 0
      else (let q = pow10 (adjusted x - (int prec - 1)) in
            of_int (round_half_even (x / q)) * q))"

definition dec_div :: "rat \<Rightarrow> rat \<Rightarrow> rat" where
  "dec_div a b = round_ctx (a / b)"

definition dec_mul :: "rat \<Rightarrow> rat \<Rightarrow> rat" where
  "dec_mul a b = round_ctx (a * b)"

definition dec_add :: "rat \<Rightarrow> rat \<Rightarrow> rat" where
  "dec_add a b = round_ctx (a + b)"

definition quantize4 :: "rat \<Rightarrow> exc + rat" where
  "quantize4 x =
     (let r = round_half_up (x * 10 ^ 4) in
      if 10 ^ prec \<le> \<bar>r\<bar> then Inl InvalidOperation
      else Inr (of_int r / 10 ^ 4))"

section \<open>Data model\<close>

text \<open>
  A row is a record of the columns the scoring engine reads or writes; timestamps, the
  free-form details of a module score and the users table are left out.  A numeric
  column holds a rational number, the value of the Decimal that the engine builds from
  it with \<^verbatim>\<open>Decimal(str(...))\<close>.
\<close>

record Exam =
  exam_id :: int
  weight_coding :: rat
  weight_quiz :: rat
  weight_assessment :: rat
  max_score_coding :: rat
  max_score_quiz :: rat
  max_score_assessment :: rat

record ExamSession =
  session_id :: int
  es_exam_id :: int
  es_user_id :: int

record ModuleScore =
  score_id :: int
  ms_session_id :: int
  module_type :: string
  raw_score :: rat
  max_score :: rat
  time_spent_sec :: int
  version :: int

record Weighted =
  weighted_coding :: rat
  weighted_quiz :: rat
  weighted_assessment :: rat
  total_score :: rat
  total_time_sec :: int

section \<open>The weighted-score calculator\<close>

definition weight_map :: "Exam \<Rightarrow> string \<rightharpoonup> rat" where
  "weight_map exam =
     [''coding'' \<mapsto> weight_coding exam,
      ''quiz'' \<mapsto> weight_quiz exam,
      ''assessment'' \<mapsto> weight_assessment exam]"

definition max_map :: "Exam \<Rightarrow> string \<rightharpoonup> rat" where
  "max_map exam =
     [''coding'' \<mapsto> max_score_coding exam,
      ''quiz'' \<mapsto> max_score_quiz exam,
      ''assessment'' \<mapsto> max_score_assessment exam]"

text \<open>The dict comprehension over \<^verbatim>\<open>session.module_scores\<close>: a later row of the same
  module type replaces an earlier one.\<close>

definition scores_dict :: "ModuleScore list \<Rightarrow> string \<rightharpoonup> ModuleScore" where
  "scores_dict mss = fold (\<lambda>ms d. d(module_type ms \<mapsto> ms)) mss Map.empty"

text \<open>One iteration of the loop over the three module names: the weighted score of the
  module and the time it adds.\<close>

definition module_weighted :: "Exam \<Rightarrow> (string \<rightharpoonup> ModuleScore) \<Rightarrow> string \<Rightarrow> exc + rat \<times> int" where
  "module_weighted exam scores modl =
     (case max_map exam modl of
        None \<Rightarrow> Inl KeyError
      | Some mx \<Rightarrow>
         (case scores modl of
            Some ms \<Rightarrow>
              if 0 < mx then
                (case weight_map exam modl of
                   None \<Rightarrow> Inl KeyError
                 | Some w \<Rightarrow>
                    (case quantize4 (dec_mul (dec_div (raw_score ms) mx) w) of
                       Inl e \<Rightarrow> Inl e
                     | Inr weighted \<Rightarrow> Inr (weighted, time_spent_sec ms)))
              else Inr (0, 0)
          | None \<Rightarrow> Inr (0, 0)))"

fun weighted_loop ::
  "Exam \<Rightarrow> (string \<rightharpoonup> ModuleScore) \<Rightarrow> string list \<Rightarrow> (string \<times> rat) list \<times> rat \<times> int
     \<Rightarrow> exc + (string \<times> rat) list \<times> rat \<times> int" where
  "weighted_loop exam scores [] acc = Inr acc"
| "weighted_loop exam scores (modl # rest) (result, tot, total_time) =
     (case module_weighted exam scores modl of
        Inl e \<Rightarrow> Inl e
      | Inr (weighted, t) \<Rightarrow>
          weighted_loop exam scores rest
            ((''weighted_'' @ modl, weighted) # result, dec_add tot weighted, total_time + t))"

definition result_get :: "(string \<times> rat) list \<Rightarrow> string \<Rightarrow> rat" where
  "result_get result k = (case map_of result k of Some v \<Rightarrow> v | None \<Rightarrow> 0)"

definition calculate_weighted_score :: "ModuleScore list \<Rightarrow> Exam \<Rightarrow> exc + Weighted" where
  "calculate_weighted_score mss exam =
     (case weighted_loop exam (scores_dict mss) [''coding'', ''quiz'', ''assessment''] ([], 0, 0) of
        Inl e \<Rightarrow> Inl e
      | Inr (result, tot, total_time) \<Rightarrow>
         (case quantize4 tot of
            Inl e \<Rightarrow> Inl e
          | Inr ts \<Rightarrow>
              Inr \<lparr> weighted_coding = result_get result ''weighted_coding'',
                    weighted_quiz = result_get result ''weighted_quiz'',
                    weighted_assessment = result_get result ''weighted_assessment'',
                    total_score = ts,
                    total_time_sec = total_time \<rparr>))"

section \<open>Leaderboard rows and the rank refresh\<close>

record LeaderboardSnapshot =
  snapshot_id :: int
  lb_exam_id :: int
  lb_user_id :: int
  lb_session_id :: int
  lb_weighted_coding :: rat
  lb_weighted_quiz :: rat
  lb_weighted_assessment :: rat
  lb_total_score :: rat
  lb_total_time_sec :: int
  rank_position :: int

record ScoreAuditLog =
  log_id :: int
  al_session_id :: int
  al_module_type :: string
  old_score :: "rat option"
  new_score :: rat
  changed_by :: int
  change_reason :: string

text \<open>The committed content of the database, and the cache beside it.\<close>

record store =
  exams :: "Exam list"
  exam_sessions :: "ExamSession list"
  module_scores :: "ModuleScore list"
  leaderboard_snapshot :: "LeaderboardSnapshot list"
  score_audit_log :: "ScoreAuditLog list"
  cache :: "(string \<times> string) list"

text \<open>
  \<^verbatim>\<open>ORDER BY total_score DESC, total_time_sec ASC\<close>: rows are compared by the pair
  (negated score, time) in the lexicographic order.
\<close>

definition rank_key :: "LeaderboardSnapshot \<Rightarrow> rat \<times> int" where
  "rank_key r = (- lb_total_score r, lb_total_time_sec r)"

text \<open>
  \<^verbatim>\<open>DENSE_RANK()\<close> as one pass over the ordered rows: the first row has rank 1, a row
  with the ordering key of its predecessor keeps that rank, any other row takes the
  predecessor's rank plus one.
\<close>

fun dense_pass :: "'k \<Rightarrow> int \<Rightarrow> 'k list \<Rightarrow> int list" where
  "dense_pass prev rk [] = []"
| "dense_pass prev rk (k # ks) =
     (let rk' = (if k = prev then rk else rk + 1) in rk' # dense_pass k rk' ks)"

fun dense_rank :: "'k list \<Rightarrow> int list" where
  "dense_rank [] = []"
| "dense_rank (k # ks) = 1 # dense_pass k 1 ks"

text \<open>The derived table \<^verbatim>\<open>ranked\<close>: (snapshot_id, new_rank) for the rows of the exam.\<close>

definition ranked :: "int \<Rightarrow> LeaderboardSnapshot list \<Rightarrow> (int \<times> int) list" where
  "ranked e lb =
     (let rows = sort_key rank_key (filter (\<lambda>r. lb_exam_id r = e) lb)
      in zip (map snapshot_id rows) (dense_rank (map rank_key rows)))"

text \<open>The \<^verbatim>\<open>UPDATE ... INNER JOIN ... SET rank_position = new_rank WHERE exam_id = :exam_id\<close>;
  the second component is the number of rows matched.\<close>

definition refresh_rows :: "int \<Rightarrow> LeaderboardSnapshot list \<Rightarrow> LeaderboardSnapshot list \<times> nat" where
  "refresh_rows e lb =
     (let rk = ranked e lb in
      (map (\<lambda>r. if lb_exam_id r = e then
                   (case map_of rk (snapshot_id r) of
                      Some n \<Rightarrow> r\<lparr>rank_position := n\<rparr>
                    | None \<Rightarrow> r)
                 else r) lb,
       length (filter (\<lambda>r. lb_exam_id r = e \<and> map_of rk (snapshot_id r) \<noteq> None) lb)))"

definition refresh_ranks :: "int \<Rightarrow> store \<Rightarrow> store \<times> nat" where
  "refresh_ranks e st =
     (let (lb, n) = refresh_rows e (leaderboard_snapshot st)
      in (st\<lparr>leaderboard_snapshot := lb\<rparr>, n))"

definition recalculate_all_ranks :: "int \<Rightarrow> store \<Rightarrow> store \<times> nat" where
  "recalculate_all_ranks e st = refresh_ranks e st"

section \<open>Cache keys\<close>

text \<open>Python's \<^verbatim>\<open>str\<close> of an integer, as the f-strings of the source format it.\<close>

definition digit_char :: "nat \<Rightarrow> char" where
  "digit_char d =
     (if d = 0 then CHR ''0'' else if d = 1 then CHR ''1'' else if d = 2 then CHR ''2''
      else if d = 3 then CHR ''3'' else if d = 4 then CHR ''4'' else if d = 5 then CHR ''5''
      else if d = 6 then CHR ''6'' else if d = 7 then CHR ''7'' else if d = 8 then CHR ''8''
      else CHR ''9'')"

fun str_nat :: "nat \<Rightarrow> string" where
  "str_nat n = (if n < 10 then [digit_char n] else str_nat (n div 10) @ [digit_char (n mod 10)])"

declare str_nat.simps [simp del]

definition str_int :: "int \<Rightarrow> string" where
  "str_int i = (if i < 0 then CHR ''-'' # str_nat (nat (- i)) else str_nat (nat i))"

text \<open>The key deleted by \<^verbatim>\<open>_invalidate_leaderboard_cache\<close>.\<close>

definition invalidation_key :: "int \<Rightarrow> string" where
  "invalidation_key e = ''leaderboard:exam:'' @ str_int e"

text \<open>The key under which \<^verbatim>\<open>get_leaderboard\<close> reads and stores a page.\<close>

definition page_cache_key :: "int \<Rightarrow> int \<Rightarrow> int \<Rightarrow> string" where
  "page_cache_key e page per_page =
     ''leaderboard:exam:'' @ str_int e @ '':p'' @ str_int page @ '':pp'' @ str_int per_page"

definition cache_get :: "string \<Rightarrow> (string \<times> string) list \<Rightarrow> string option" where
  "cache_get k c = map_of c k"

definition cache_delete :: "string \<Rightarrow> (string \<times> string) list \<Rightarrow> (string \<times> string) list" where
  "cache_delete k c = filter (\<lambda>kv. fst kv \<noteq> k) c"

definition cache_set :: "string \<Rightarrow> string \<Rightarrow> (string \<times> string) list \<Rightarrow> (string \<times> string) list" where
  "cache_set k v c = (k, v) # cache_delete k c"

definition invalidate_leaderboard_cache :: "int \<Rightarrow> store \<Rightarrow> store" where
  "invalidate_leaderboard_cache e st = st\<lparr>cache := cache_delete (invalidation_key e) (cache st)\<rparr>"

text \<open>The reader's cache write on a miss: page and per_page are clamped as the route does.\<close>

definition store_page :: "int \<Rightarrow> int \<Rightarrow> int \<Rightarrow> string \<Rightarrow> store \<Rightarrow> store" where
  "store_page e page per_page payload st =
     st\<lparr>cache := cache_set (page_cache_key e (max 1 page) (min 200 (max 1 per_page))) payload
                    (cache st)\<rparr>"

section \<open>The score submission pipeline\<close>

text \<open>
  The statements of one attempt that reach the storage layer, in the order in which the
  attempt issues them.  An attempt runs against an environment that says, for each of
  them, whether the storage layer raises there and what.  \<open>Autoflush\<close> is the flush that the
  session performs by itself before the leaderboard select of \<^verbatim>\<open>_upsert_leaderboard\<close>: it
  writes the pending module score and audit entry.  \<open>Flush\<close> is the explicit
  \<^verbatim>\<open>db.session.flush()\<close>, which writes the leaderboard entry.  \<open>Reread\<close> stands for the reads
  that follow the commit.
\<close>

datatype stmt =
    LockSession
  | GetExam
  | LockModuleScore
  | Autoflush
  | LockLeaderboard
  | Flush
  | RefreshRanks
  | Commit
  | Reread

type_synonym env = "stmt \<Rightarrow> exc option"

definition sbind :: "exc + 'a \<Rightarrow> ('a \<Rightarrow> exc + 'b) \<Rightarrow> exc + 'b" where
  "sbind m f = (case m of Inl e \<Rightarrow> Inl e | Inr x \<Rightarrow> f x)"

definition exec :: "env \<Rightarrow> stmt \<Rightarrow> exc + 'a \<Rightarrow> exc + 'a" where
  "exec ev s r = (case ev s of Some e \<Rightarrow> Inl e | None \<Rightarrow> r)"

definition scalar_one :: "'a list \<Rightarrow> exc + 'a" where
  "scalar_one rows =
     (case rows of [] \<Rightarrow> Inl NoResultFound | [x] \<Rightarrow> Inr x | _ \<Rightarrow> Inl MultipleResultsFound)"

definition scalar_one_or_none :: "'a list \<Rightarrow> exc + 'a option" where
  "scalar_one_or_none rows =
     (case rows of [] \<Rightarrow> Inr None | [x] \<Rightarrow> Inr (Some x) | _ \<Rightarrow> Inl MultipleResultsFound)"

text \<open>
  The session select of step 1 returns \<^verbatim>\<open>ExamSession\<close> entities, whose collection
  \<^verbatim>\<open>module_scores\<close> is declared with \<^verbatim>\<open>lazy='joined'\<close>.  A result that carries a joined eager
  load of a collection has to be made unique with \<^verbatim>\<open>unique()\<close> before a row is taken from it.
  \<^verbatim>\<open>_atomic_score_update\<close> calls \<^verbatim>\<open>scalar_one()\<close> on the result as it is, so taking the first
  row raises \<^verbatim>\<open>InvalidRequestError\<close>; an empty result raises \<^verbatim>\<open>NoResultFound\<close> before any row
  is taken.
\<close>

definition scalar_one_joined :: "'a list \<Rightarrow> exc + 'a" where
  "scalar_one_joined rows =
     (case rows of [] \<Rightarrow> Inl NoResultFound | _ \<Rightarrow> Inl InvalidRequestError)"

text \<open>A value written to a \<^verbatim>\<open>Numeric(p, s)\<close> column is rounded to \<open>s\<close> fractional digits, ties
  away from zero; a value that then needs more than \<open>p\<close> digits is refused by the database.\<close>

definition numeric :: "nat \<Rightarrow> nat \<Rightarrow> rat \<Rightarrow> exc + rat" where
  "numeric p s x =
     (let r = round_half_up (x * 10 ^ s) in
      if 10 ^ p \<le> \<bar>r\<bar> then Inl DataError else Inr (of_int r / 10 ^ s))"

text \<open>An autoincrement primary key: one more than the largest key in use.\<close>

definition next_id :: "int list \<Rightarrow> int" where
  "next_id ids = fold max ids 0 + 1"

definition MAX_RETRIES :: nat where
  "MAX_RETRIES = 3"

definition VALID_MODULES :: "string list" where
  "VALID_MODULES = [''coding'', ''quiz'', ''assessment'']"

definition validate_module_type :: "string \<Rightarrow> exc + unit" where
  "validate_module_type mtype =
     (if mtype \<notin> set VALID_MODULES then Inl ValueError else Inr ())"

text \<open>The clause \<^verbatim>\<open>except OperationalError\<close> of the retry loop: it matches the exception by
  its class, whatever the cause.\<close>

definition is_operational :: "exc \<Rightarrow> bool" where
  "is_operational e = (case e of OperationalError _ \<Rightarrow> True | _ \<Rightarrow> False)"

text \<open>
  Step 2 as the session sees it.  \<^verbatim>\<open>session.module_scores\<close> is the collection loaded with the
  session in step 1.  An existing row of the module is the same object as the one the
  locking select returns, so the assignments of step 2 show in the collection, with the
  values as submitted; a row created by step 2 is added to the unit of work with its
  \<^verbatim>\<open>session_id\<close> only and does not enter the collection.
\<close>

definition session_module_scores ::
  "ModuleScore option \<Rightarrow> rat \<Rightarrow> rat \<Rightarrow> int \<Rightarrow> ModuleScore list \<Rightarrow> ModuleScore list" where
  "session_module_scores found raw mx tsec loaded =
     (case found of
        None \<Rightarrow> loaded
      | Some row \<Rightarrow>
          map (\<lambda>ms. if score_id ms = score_id row
                     then ms\<lparr>raw_score := raw, max_score := mx, time_spent_sec := tsec,
                             version := version ms + 1\<rparr>
                     else ms) loaded)"

text \<open>Step 2 as the table sees it once flushed: the row is inserted with version 1, or the
  row found is updated with its version incremented.  \<open>raw\<close> and \<open>mx\<close> are the values as the
  columns hold them.\<close>

definition upsert_module_score ::
  "ModuleScore option \<Rightarrow> int \<Rightarrow> string \<Rightarrow> rat \<Rightarrow> rat \<Rightarrow> int \<Rightarrow> ModuleScore list \<Rightarrow> ModuleScore list" where
  "upsert_module_score found sid mtype raw mx tsec mss =
     (case found of
        None \<Rightarrow>
          mss @ [\<lparr>score_id = next_id (map score_id mss), ms_session_id = sid,
                   module_type = mtype, raw_score = raw, max_score = mx,
                   time_spent_sec = tsec, version = 1\<rparr>]
      | Some row \<Rightarrow>
          map (\<lambda>ms. if score_id ms = score_id row
                     then ms\<lparr>raw_score := raw, max_score := mx, time_spent_sec := tsec,
                             version := version ms + 1\<rparr>
                     else ms) mss)"

text \<open>The four scores of a leaderboard entry as its \<^verbatim>\<open>Numeric(10, 4)\<close> columns hold them.\<close>

definition numeric_weighted :: "Weighted \<Rightarrow> exc + Weighted" where
  "numeric_weighted w =
     sbind (numeric 10 4 (weighted_coding w)) (\<lambda>c.
     sbind (numeric 10 4 (weighted_quiz w)) (\<lambda>q.
     sbind (numeric 10 4 (weighted_assessment w)) (\<lambda>a.
     sbind (numeric 10 4 (total_score w)) (\<lambda>t.
     Inr \<lparr>weighted_coding = c, weighted_quiz = q, weighted_assessment = a,
          total_score = t, total_time_sec = total_time_sec w\<rparr>))))"

text \<open>Step 5, \<^verbatim>\<open>_upsert_leaderboard\<close>: \<open>found\<close> is the row the locking select returned, if any.
  A new row gets rank 0; the rank of an existing row is left as it is.\<close>

definition upsert_leaderboard ::
  "LeaderboardSnapshot option \<Rightarrow> ExamSession \<Rightarrow> Exam \<Rightarrow> Weighted \<Rightarrow> LeaderboardSnapshot list
     \<Rightarrow> LeaderboardSnapshot list" where
  "upsert_leaderboard found session exam weighted lb =
     (case found of
        None \<Rightarrow>
          lb @ [\<lparr>snapshot_id = next_id (map snapshot_id lb), lb_exam_id = exam_id exam,
                  lb_user_id = es_user_id session, lb_session_id = session_id session,
                  lb_weighted_coding = weighted_coding weighted,
                  lb_weighted_quiz = weighted_quiz weighted,
                  lb_weighted_assessment = weighted_assessment weighted,
                  lb_total_score = total_score weighted,
                  lb_total_time_sec = total_time_sec weighted,
                  rank_position = 0\<rparr>]
      | Some row \<Rightarrow>
          map (\<lambda>r. if snapshot_id r = snapshot_id row
                    then r\<lparr>lb_weighted_coding := weighted_coding weighted,
                           lb_weighted_quiz := weighted_quiz weighted,
                           lb_weighted_assessment := weighted_assessment weighted,
                           lb_total_score := total_score weighted,
                           lb_total_time_sec := total_time_sec weighted\<rparr>
                    else r) lb)"

text \<open>
  Steps 1 to 7 up to and including the commit: the result is the state to be committed
  together with the session and the exam, or the exception that ended the attempt.
  Step 1 takes the session with \<open>scalar_one_joined\<close>.  The calculator of step 4 reads
  \<open>session_module_scores\<close>.  The module score and the audit entry reach their tables at the
  autoflush, rounded to the scale of their columns, the leaderboard entry at the flush.
\<close>

definition atomic_txn ::
  "env \<Rightarrow> store \<Rightarrow> int \<Rightarrow> string \<Rightarrow> rat \<Rightarrow> rat \<Rightarrow> int \<Rightarrow> int \<Rightarrow> exc + store \<times> ExamSession \<times> Exam" where
  "atomic_txn ev st sid mtype raw mx tsec who =
     sbind (exec ev LockSession
              (scalar_one_joined (filter (\<lambda>s. session_id s = sid) (exam_sessions st)))) (\<lambda>session.
     let loaded = filter (\<lambda>ms. ms_session_id ms = session_id session) (module_scores st) in
     sbind (exec ev GetExam
              (Inr (find (\<lambda>e. exam_id e = es_exam_id session) (exams st)))) (\<lambda>exam_opt.
     sbind (exec ev LockModuleScore
              (scalar_one_or_none
                 (filter (\<lambda>ms. ms_session_id ms = sid \<and> module_type ms = mtype)
                    (module_scores st)))) (\<lambda>found.
     sbind (case exam_opt of None \<Rightarrow> Inl AttributeError | Some exam \<Rightarrow> Inr exam) (\<lambda>exam.
     sbind (calculate_weighted_score (session_module_scores found raw mx tsec loaded) exam)
       (\<lambda>weighted.
     sbind (exec ev Autoflush
              (sbind (numeric 10 2 raw) (\<lambda>raw'.
               sbind (numeric 10 2 mx) (\<lambda>mx'. Inr (raw', mx'))))) (\<lambda>(raw', mx').
     let mss = upsert_module_score found sid mtype raw' mx' tsec (module_scores st);
         audit = \<lparr>log_id = next_id (map log_id (score_audit_log st)), al_session_id = sid,
                  al_module_type = mtype, old_score = map_option raw_score found,
                  new_score = raw', changed_by = who, change_reason = ''module_submission''\<rparr>
     in
     sbind (exec ev LockLeaderboard
              (scalar_one_or_none
                 (filter (\<lambda>r. lb_exam_id r = exam_id exam \<and> lb_user_id r = es_user_id session)
                    (leaderboard_snapshot st)))) (\<lambda>lb_found.
     sbind (exec ev Flush (numeric_weighted weighted)) (\<lambda>stored.
     let lb = upsert_leaderboard lb_found session exam stored (leaderboard_snapshot st);
         st1 = st\<lparr>module_scores := mss,
                   score_audit_log := score_audit_log st @ [audit],
                   leaderboard_snapshot := lb\<rparr>
     in
     sbind (exec ev RefreshRanks (Inr (fst (refresh_ranks (exam_id exam) st1)))) (\<lambda>st2.
     sbind (exec ev Commit (Inr ())) (\<lambda>_.
     Inr (st2, session, exam)))))))))))"

text \<open>
  One attempt.  The second component is the committed state after it: the state before
  the attempt when it ended before the commit, the new state afterwards.
\<close>

definition atomic_score_update ::
  "env \<Rightarrow> store \<Rightarrow> int \<Rightarrow> string \<Rightarrow> rat \<Rightarrow> rat \<Rightarrow> int \<Rightarrow> int \<Rightarrow> (exc + LeaderboardSnapshot) \<times> store" where
  "atomic_score_update ev st sid mtype raw mx tsec who =
     (case atomic_txn ev st sid mtype raw mx tsec who of
        Inl e \<Rightarrow> (Inl e, st)
      | Inr (st2, session, exam) \<Rightarrow>
          (let st3 = invalidate_leaderboard_cache (exam_id exam) st2 in
           (exec ev Reread
              (scalar_one
                 (filter (\<lambda>r. lb_exam_id r = exam_id exam \<and> lb_user_id r = es_user_id session)
                    (leaderboard_snapshot st3))),
            st3)))"

text \<open>
  The retry loop \<^verbatim>\<open>for attempt in range(1, MAX_RETRIES + 1)\<close>.  The result is the outcome
  (a loop that runs out without returning yields Python's \<open>None\<close>), the committed state,
  and the number of attempts made.
\<close>

fun submit_attempts ::
  "nat list \<Rightarrow> (nat \<Rightarrow> env) \<Rightarrow> store \<Rightarrow> int \<Rightarrow> string \<Rightarrow> rat \<Rightarrow> rat \<Rightarrow> int \<Rightarrow> int
     \<Rightarrow> (exc + LeaderboardSnapshot option) \<times> store \<times> nat" where
  "submit_attempts [] evs st sid mtype raw mx tsec who = (Inr None, st, 0)"
| "submit_attempts (attempt # rest) evs st sid mtype raw mx tsec who =
     (case atomic_score_update (evs attempt) st sid mtype raw mx tsec who of
        (Inr entry, st') \<Rightarrow> (Inr (Some entry), st', 1)
      | (Inl e, st') \<Rightarrow>
          if is_operational e then
            (if attempt = MAX_RETRIES then (Inl RuntimeError, st', 1)
             else (case submit_attempts rest evs st' sid mtype raw mx tsec who of
                     (res, st'', n) \<Rightarrow> (res, st'', Suc n)))
          else (Inl e, st', 1))"

definition submit_module_score ::
  "(nat \<Rightarrow> env) \<Rightarrow> store \<Rightarrow> int \<Rightarrow> string \<Rightarrow> rat \<Rightarrow> rat \<Rightarrow> int \<Rightarrow> int
     \<Rightarrow> (exc + LeaderboardSnapshot option) \<times> store \<times> nat" where
  "submit_module_score evs st sid mtype raw mx tsec who =
     (case validate_module_type mtype of
        Inl e \<Rightarrow> (Inl e, st, 0)
      | Inr _ \<Rightarrow> submit_attempts [1..<MAX_RETRIES + 1] evs st sid mtype raw mx tsec who)"

subsection \<open>The request schema and the route in front of the pipeline\<close>

text \<open>\<^verbatim>\<open>SubmitScoreSchema\<close>: module type one of the three, raw_score at least 0, max_score at
  least 0.01, time_spent_sec at least 0, and raw_score not above max_score.\<close>

definition SubmitScoreSchema_load :: "string \<Rightarrow> rat \<Rightarrow> rat \<Rightarrow> int \<Rightarrow> bool" where
  "SubmitScoreSchema_load mtype raw mx tsec =
     (mtype \<in> set [''coding'', ''quiz'', ''assessment'']
      \<and> 0 \<le> raw \<and> 1 / 100 \<le> mx \<and> 0 \<le> tsec \<and> \<not> mx < raw)"

text \<open>\<^verbatim>\<open>POST /api/v1/scores\<close>: the HTTP status and the committed state.\<close>

definition submit_score ::
  "(nat \<Rightarrow> env) \<Rightarrow> store \<Rightarrow> int \<Rightarrow> string \<Rightarrow> rat \<Rightarrow> rat \<Rightarrow> int \<Rightarrow> nat \<times> store" where
  "submit_score evs st sid mtype raw mx tsec =
     (if \<not> SubmitScoreSchema_load mtype raw mx tsec then (422, st)
      else (case submit_module_score evs st sid mtype raw mx tsec 0 of
              (Inr _, st', _) \<Rightarrow> (200, st')
            | (Inl e, st', _) \<Rightarrow>
                (if e = ValueError then 400 else if e = RuntimeError then 409 else 500, st')))"

section \<open>Notions used to state the properties\<close>

text \<open>The body of the calculator's loop once the exam's maximum \<open>mx\<close> and weight \<open>w\<close> of
  the module and the session's row for it have been looked up.\<close>

definition module_term :: "rat \<Rightarrow> rat \<Rightarrow> ModuleScore option \<Rightarrow> exc + rat \<times> int" where
  "module_term mx w row =
     (case row of
        Some ms \<Rightarrow>
          if 0 < mx then
            (case quantize4 (dec_mul (dec_div (raw_score ms) mx) w) of
               Inl e \<Rightarrow> Inl e
             | Inr weighted \<Rightarrow> Inr (weighted, time_spent_sec ms))
          else Inr (0, 0)
      | None \<Rightarrow> Inr (0, 0))"

text \<open>The time recorded for a module of the session, 0 when it was never submitted.\<close>

definition time_of :: "ModuleScore list \<Rightarrow> string \<Rightarrow> int" where
  "time_of mss m = (case scores_dict mss m of Some ms \<Rightarrow> time_spent_sec ms | None \<Rightarrow> 0)"

text \<open>A number with at most four fractional digits.\<close>

definition places4 :: "rat \<Rightarrow> bool" where
  "places4 x = (of_int \<lfloor>x * 10 ^ 4\<rfloor> = x * 10 ^ 4)"

text \<open>Row \<open>r1\<close> comes strictly before row \<open>r2\<close> in the leaderboard order: a higher total
  score, or the same score in less time.\<close>

definition precedes :: "LeaderboardSnapshot \<Rightarrow> LeaderboardSnapshot \<Rightarrow> bool" where
  "precedes r1 r2 =
     (lb_total_score r2 < lb_total_score r1
      \<or> (lb_total_score r1 = lb_total_score r2 \<and> lb_total_time_sec r1 < lb_total_time_sec r2))"

text \<open>The failures that the specification calls a write-write conflict.\<close>

definition lock_conflict :: "exc \<Rightarrow> bool" where
  "lock_conflict e = (e = OperationalError LockWaitTimeout \<or> e = OperationalError Deadlock)"

text \<open>How the first step of an attempt ends for session \<open>sid\<close>: with what the storage layer
  raises at the session select, if anything, else with the error of \<^verbatim>\<open>scalar_one()\<close>.\<close>

definition session_lookup_error :: "env \<Rightarrow> store \<Rightarrow> int \<Rightarrow> exc" where
  "session_lookup_error ev st sid =
     (case ev LockSession of
        Some e \<Rightarrow> e
      | None \<Rightarrow> if filter (\<lambda>s. session_id s = sid) (exam_sessions st) = []
                then NoResultFound else InvalidRequestError)"

text \<open>The leaderboard entries of an exam.\<close>

definition exam_rows :: "int \<Rightarrow> store \<Rightarrow> LeaderboardSnapshot set" where
  "exam_rows e st = {r \<in> set (leaderboard_snapshot st). lb_exam_id r = e}"

text \<open>A small database used to instantiate the properties: one exam with the default
  configuration, three sessions with coding submitted, their leaderboard entries (two of
  them tied), an entry of another exam, and one cached leaderboard page.\<close>

definition example_store :: store where
  "example_store =
     \<lparr>exams =
        [\<lparr>exam_id = 1, weight_coding = 50, weight_quiz = 30, weight_assessment = 20,
          max_score_coding = 100, max_score_quiz = 100, max_score_assessment = 100\<rparr>],
      exam_sessions =
        [\<lparr>session_id = 7, es_exam_id = 1, es_user_id = 3\<rparr>,
         \<lparr>session_id = 8, es_exam_id = 1, es_user_id = 4\<rparr>,
         \<lparr>session_id = 9, es_exam_id = 1, es_user_id = 5\<rparr>],
      module_scores =
        [\<lparr>score_id = 1, ms_session_id = 7, module_type = ''coding'', raw_score = 80,
          max_score = 100, time_spent_sec = 3000, version = 1\<rparr>,
         \<lparr>score_id = 2, ms_session_id = 8, module_type = ''coding'', raw_score = 80,
          max_score = 100, time_spent_sec = 2000, version = 1\<rparr>,
         \<lparr>score_id = 3, ms_session_id = 9, module_type = ''coding'', raw_score = 80,
          max_score = 100, time_spent_sec = 3000, version = 1\<rparr>],
      leaderboard_snapshot =
        [\<lparr>snapshot_id = 1, lb_exam_id = 1, lb_user_id = 3, lb_session_id = 7,
          lb_weighted_coding = 40, lb_weighted_quiz = 0, lb_weighted_assessment = 0,
          lb_total_score = 40, lb_total_time_sec = 3000, rank_position = 2\<rparr>,
         \<lparr>snapshot_id = 2, lb_exam_id = 1, lb_user_id = 4, lb_session_id = 8,
          lb_weighted_coding = 40, lb_weighted_quiz = 0, lb_weighted_assessment = 0,
          lb_total_score = 40, lb_total_time_sec = 2000, rank_position = 1\<rparr>,
         \<lparr>snapshot_id = 3, lb_exam_id = 1, lb_user_id = 5, lb_session_id = 9,
          lb_weighted_coding = 40, lb_weighted_quiz = 0, lb_weighted_assessment = 0,
          lb_total_score = 40, lb_total_time_sec = 3000, rank_position = 0\<rparr>,
         \<lparr>snapshot_id = 4, lb_exam_id = 2, lb_user_id = 3, lb_session_id = 10,
          lb_weighted_coding = 45, lb_weighted_quiz = 0, lb_weighted_assessment = 0,
          lb_total_score = 45, lb_total_time_sec = 100, rank_position = 1\<rparr>],
      score_audit_log =
        [\<lparr>log_id = 1, al_session_id = 7, al_module_type = ''coding'', old_score = None,
          new_score = 80, changed_by = 0, change_reason = ''module_submission''\<rparr>,
         \<lparr>log_id = 2, al_session_id = 8, al_module_type = ''coding'', old_score = None,
          new_score = 80, changed_by = 0, change_reason = ''module_submission''\<rparr>,
         \<lparr>log_id = 3, al_session_id = 9, al_module_type = ''coding'', old_score = None,
          new_score = 80, changed_by = 0, change_reason = ''module_submission''\<rparr>],
      cache = [(''leaderboard:exam:1:p1:pp50'', ''page 1'')]\<rparr>"

section \<open>Properties of the decimal operations\<close>

lemma ndigits_bounds: "0 < n \<Longrightarrow> 10 ^ (ndigits n - 1) \<le> n \<and> n < 10 ^ ndigits n"
proof (induction n rule: ndigits.induct)
  case (1 n)
  show ?case
  proof (cases "n < 10")
    case True
    with "1.prems" show ?thesis by (simp add: ndigits.simps)
  next
    case False
    then have pos: "0 < n div 10" by simp
    from "1.IH"[OF False pos]
    have lo: "10 ^ (ndigits (n div 10) - 1) \<le> n div 10" and hi: "n div 10 < 10 ^ ndigits (n div 10)"
      by simp_all
    have nd: "ndigits n = Suc (ndigits (n div 10))" using False by (simp add: ndigits.simps)
    have gt0: "0 < ndigits (n div 10)" by (subst ndigits.simps) simp
    then have e: "ndigits (n div 10) = Suc (ndigits (n div 10) - 1)" by simp
    have "10 ^ (ndigits n - 1) = 10 * 10 ^ (ndigits (n div 10) - 1)"
      unfolding nd using e by (metis diff_Suc_1 power_Suc)
    also have "\<dots> \<le> 10 * (n div 10)" using lo by simp
    also have "\<dots> \<le> n" by simp
    finally have A: "10 ^ (ndigits n - 1) \<le> n" .
    have "n < 10 * (n div 10 + 1)" by presburger
    also have "\<dots> \<le> 10 * 10 ^ ndigits (n div 10)" using hi by simp
    finally have B: "n < 10 ^ ndigits n" unfolding nd by simp
    from A B show ?thesis ..
  qed
qed

lemma pow10_powi: "pow10 i = 10 powi i"
  by (simp add: pow10_def power_int_def inverse_eq_divide power_one_over)

lemma pow10_pos: "0 < pow10 i"
  by (simp add: pow10_powi)

lemma pow10_add: "pow10 (i + j) = pow10 i * pow10 j"
  by (simp add: pow10_powi power_int_add)

lemma pow10_nat: "pow10 (int n) = 10 ^ n"
  by (simp add: pow10_def)

lemma pow10_mono: "i \<le> j \<Longrightarrow> pow10 i \<le> pow10 j"
  by (simp add: pow10_powi power_int_increasing)

lemma pow10_less_imp: "pow10 i < pow10 j \<Longrightarrow> i < j"
  using pow10_mono[of j i] by (cases "i < j") auto

lemma adjusted_le:
  assumes "x \<noteq> 0"
  shows "pow10 (adjusted x) \<le> \<bar>x\<bar>"
proof (cases "1 \<le> \<bar>x\<bar>")
  case True
  define n where "n = \<lfloor>\<bar>x\<bar>\<rfloor>"
  have n1: "0 < n" using True by (simp add: n_def)
  have adj: "adjusted x = int (ndigits n) - 1"
    using True by (simp add: adjusted_def n_def)
  have nd: "0 < ndigits n" by (subst ndigits.simps) simp
  then have "adjusted x = int (ndigits n - 1)" using adj by simp
  then have "pow10 (adjusted x) = 10 ^ (ndigits n - 1)" by (simp add: pow10_nat)
  also have "\<dots> = of_int (10 ^ (ndigits n - 1))" by simp
  also have "\<dots> \<le> of_int n" using ndigits_bounds[OF n1] by (simp only: of_int_le_iff)
  also have "\<dots> \<le> \<bar>x\<bar>" by (simp add: n_def)
  finally show ?thesis .
next
  case False
  define a where "a = \<bar>x\<bar>"
  define y where "y = 1 / a"
  define d where "d = ndigits \<lfloor>y\<rfloor>"
  have a0: "0 < a" and a1: "a < 1" using assms False by (simp_all add: a_def)
  have y1: "1 < y" using a0 a1 by (simp add: y_def)
  have fy: "0 < \<lfloor>y\<rfloor>" using y1 by simp
  have hi: "\<lfloor>y\<rfloor> < 10 ^ d" using ndigits_bounds[OF fy] by (simp add: d_def)
  then have "\<lfloor>y\<rfloor> + 1 \<le> 10 ^ d" by simp
  then have "(of_int (\<lfloor>y\<rfloor> + 1) :: rat) \<le> of_int (10 ^ d)" by (simp only: of_int_le_iff)
  moreover have "y < of_int (\<lfloor>y\<rfloor> + 1)" by linarith
  ultimately have yle: "y \<le> 10 ^ d" by simp
  define m where "m = d - 1"
  have adj: "adjusted x = (if y = 10 ^ m then - int m else - int d)"
    using False unfolding adjusted_def Let_def a_def y_def d_def m_def by simp
  have ay: "a = 1 / y" using a0 by (simp add: y_def)
  show ?thesis
  proof (cases "y = 10 ^ m")
    case True
    then have "pow10 (adjusted x) = 1 / 10 ^ m"
      using adj by (cases "m = 0") (simp_all add: pow10_def)
    then show ?thesis using True ay a_def by simp
  next
    case False
    then have "pow10 (adjusted x) = 1 / 10 ^ d"
      using adj by (simp add: pow10_def)
    also have "\<dots> \<le> 1 / y" using yle y1 by (simp add: frac_le)
    finally show ?thesis using ay a_def by simp
  qed
qed

lemma round_half_even_err: "\<bar>of_int (round_half_even y) - y\<bar> \<le> 1 / 2"
proof -
  have "of_int \<lfloor>y\<rfloor> \<le> y" "y < of_int \<lfloor>y\<rfloor> + 1" by linarith+
  then show ?thesis
    by (auto simp: round_half_even_def Let_def)
qed

lemma round_half_even_of_int: "round_half_even (of_int k) = k"
  by (simp add: round_half_even_def)

lemma round_half_up_err: "\<bar>of_int (round_half_up y) - y\<bar> \<le> 1 / 2"
proof -
  have *: "\<bar>of_int \<lfloor>z + 1 / 2\<rfloor> - z\<bar> \<le> 1 / 2" for z :: rat
    by linarith
  show ?thesis
  proof (cases "0 \<le> y")
    case True
    then show ?thesis using *[of y] by (simp add: round_half_up_def)
  next
    case False
    have "\<bar>of_int (- \<lfloor>- y + 1 / 2\<rfloor>) - y\<bar> = \<bar>of_int \<lfloor>- y + 1 / 2\<rfloor> - (- y)\<bar>"
      by simp
    then show ?thesis using False *[of "- y"] by (simp add: round_half_up_def)
  qed
qed

lemma round_ctx_err: "\<bar>round_ctx x - x\<bar> \<le> \<bar>x\<bar> / (2 * 10 ^ 27)"
proof (cases "x = 0")
  case True
  then show ?thesis by (simp add: round_ctx_def)
next
  case False
  define q where "q = pow10 (adjusted x - 27)"
  have q0: "0 < q" by (simp add: q_def pow10_pos)
  have rc: "round_ctx x = of_int (round_half_even (x / q)) * q"
    using False by (simp add: round_ctx_def prec_def q_def Let_def)
  have "pow10 (adjusted x) = q * 10 ^ 27"
  proof -
    have "pow10 (adjusted x) = pow10 ((adjusted x - 27) + 27)" by simp
    also have "\<dots> = q * pow10 27" unfolding q_def by (rule pow10_add)
    finally show ?thesis by (simp add: pow10_def)
  qed
  then have qle: "q * 10 ^ 27 \<le> \<bar>x\<bar>" using adjusted_le[OF False] by simp
  have "round_ctx x - x = (of_int (round_half_even (x / q)) - x / q) * q"
    using q0 by (simp add: rc algebra_simps)
  then have "\<bar>round_ctx x - x\<bar> = \<bar>of_int (round_half_even (x / q)) - x / q\<bar> * q"
    using q0 by (simp add: abs_mult)
  also have "\<dots> \<le> (1 / 2) * q"
    using round_half_even_err[of "x / q"] q0 by (intro mult_right_mono) simp_all
  also have "\<dots> \<le> \<bar>x\<bar> / (2 * 10 ^ 27)"
    using qle by (simp add: field_simps)
  finally show ?thesis .
qed

lemma round_ctx_id:
  assumes small: "\<bar>x\<bar> < 10 ^ 24" and k: "x * 10 ^ 4 = of_int k"
  shows "round_ctx x = x"
proof (cases "x = 0")
  case True
  then show ?thesis by (simp add: round_ctx_def)
next
  case False
  define e where "e = adjusted x"
  define q where "q = pow10 (e - 27)"
  have q0: "0 < q" by (simp add: q_def pow10_pos)
  have "pow10 e < pow10 24"
    using adjusted_le[OF False] small by (simp add: e_def pow10_def)
  then have e24: "e < 24" by (rule pow10_less_imp)
  define j where "j = nat (23 - e)"
  have je: "int j = 23 - e" using e24 by (simp add: j_def)
  have "pow10 (e - 27) * pow10 (int j) = pow10 (- 4)"
    unfolding pow10_add[symmetric] using je by simp
  then have qj: "q * 10 ^ j = 1 / 10 ^ 4"
    by (simp add: q_def pow10_nat) (simp add: pow10_def)
  have xk: "x = of_int k / 10 ^ 4" using k by (simp add: field_simps)
  have "x / q = of_int k * (1 / 10 ^ 4) / q" by (simp add: xk)
  also have "\<dots> = of_int k * (q * 10 ^ j) / q" by (simp only: qj)
  also have "\<dots> = of_int (k * 10 ^ j)" using q0 by simp
  finally have xq: "x / q = of_int (k * 10 ^ j)" .
  have "round_ctx x = of_int (round_half_even (x / q)) * q"
    using False by (simp add: round_ctx_def prec_def q_def e_def Let_def)
  also have "\<dots> = x / q * q" by (simp only: xq round_half_even_of_int)
  also have "\<dots> = x" using q0 by simp
  finally show ?thesis .
qed

section \<open>The calculator, unfolded\<close>

lemma max_map_simps:
  "max_map exam ''coding'' = Some (max_score_coding exam)"
  "max_map exam ''quiz'' = Some (max_score_quiz exam)"
  "max_map exam ''assessment'' = Some (max_score_assessment exam)"
  by (simp_all add: max_map_def)

lemma weight_map_simps:
  "weight_map exam ''coding'' = Some (weight_coding exam)"
  "weight_map exam ''quiz'' = Some (weight_quiz exam)"
  "weight_map exam ''assessment'' = Some (weight_assessment exam)"
  by (simp_all add: weight_map_def)

lemma module_weighted_simps:
  "module_weighted exam sc ''coding'' = module_term (max_score_coding exam) (weight_coding exam) (sc ''coding'')"
  "module_weighted exam sc ''quiz'' = module_term (max_score_quiz exam) (weight_quiz exam) (sc ''quiz'')"
  "module_weighted exam sc ''assessment'' = module_term (max_score_assessment exam) (weight_assessment exam) (sc ''assessment'')"
  by (simp_all add: module_weighted_def module_term_def max_map_simps weight_map_simps split: option.splits)

lemma calculate_unfold:
  "calculate_weighted_score mss exam =
     (case module_term (max_score_coding exam) (weight_coding exam) (scores_dict mss ''coding'') of
        Inl e \<Rightarrow> Inl e
      | Inr (wc, tc) \<Rightarrow>
     (case module_term (max_score_quiz exam) (weight_quiz exam) (scores_dict mss ''quiz'') of
        Inl e \<Rightarrow> Inl e
      | Inr (wq, tq) \<Rightarrow>
     (case module_term (max_score_assessment exam) (weight_assessment exam) (scores_dict mss ''assessment'') of
        Inl e \<Rightarrow> Inl e
      | Inr (wa, ta) \<Rightarrow>
     (case quantize4 (dec_add (dec_add (dec_add 0 wc) wq) wa) of
        Inl e \<Rightarrow> Inl e
      | Inr ts \<Rightarrow>
          Inr \<lparr>weighted_coding = wc, weighted_quiz = wq, weighted_assessment = wa,
                total_score = ts, total_time_sec = tc + tq + ta\<rparr>))))"
  by (simp add: calculate_weighted_score_def module_weighted_simps result_get_def
      split: sum.splits prod.splits)

lemma fold_scores_None:
  "fold (\<lambda>ms d. d(module_type ms \<mapsto> ms)) mss d m = None
     \<longleftrightarrow> d m = None \<and> m \<notin> module_type ` set mss"
  by (induction mss arbitrary: d) auto

lemma scores_dict_None: "scores_dict mss m = None \<longleftrightarrow> m \<notin> module_type ` set mss"
  by (simp add: scores_dict_def fold_scores_None)

section \<open>The calculator on the concrete scenario\<close>

text \<open>
  C2.  Exam weights coding = 50, quiz = 30, assessment = 20, every module maximum 100;
  a session with coding 80 (time 1000), quiz 90 (time 500) and assessment 70 (time 800).
  The calculator returns weighted_coding = 40.0000, weighted_quiz = 27.0000,
  weighted_assessment = 14.0000, total_score = 81.0000 and total_time_sec = 2300.
\<close>

theorem calculate_weighted_score_scenario:
  "calculate_weighted_score
     [\<lparr>score_id = 1, ms_session_id = 1, module_type = ''coding'', raw_score = 80,
        max_score = 100, time_spent_sec = 1000, version = 1\<rparr>,
      \<lparr>score_id = 2, ms_session_id = 1, module_type = ''quiz'', raw_score = 90,
        max_score = 100, time_spent_sec = 500, version = 1\<rparr>,
      \<lparr>score_id = 3, ms_session_id = 1, module_type = ''assessment'', raw_score = 70,
        max_score = 100, time_spent_sec = 800, version = 1\<rparr>]
     \<lparr>exam_id = 1, weight_coding = 50, weight_quiz = 30, weight_assessment = 20,
      max_score_coding = 100, max_score_quiz = 100, max_score_assessment = 100\<rparr>
   = Inr \<lparr>weighted_coding = 40, weighted_quiz = 27, weighted_assessment = 14,
          total_score = 81, total_time_sec = 2300\<rparr>"
  by code_simp

section \<open>Missing modules\<close>

lemma module_term_None: "module_term mx w None = Inr (0, 0)"
  by (simp add: module_term_def)

lemma module_term_time:
  "module_term mx w row = Inr (c, t) \<Longrightarrow>
     t = (if 0 < mx then (case row of Some ms \<Rightarrow> time_spent_sec ms | None \<Rightarrow> 0) else 0)"
  by (auto simp: module_term_def split: option.splits if_splits sum.splits)

lemma coding_80_of_100_weight_50:
  "quantize4 (dec_mul (dec_div 80 100) 50) = Inr 40"
  "dec_add 0 40 = 40" "dec_add 40 0 = 40" "quantize4 40 = Inr 40"
  by code_simp+

lemma scores_dict_single:
  "scores_dict [ms] m = (if m = module_type ms then Some ms else None)"
  by (simp add: scores_dict_def)

text \<open>
  C4, as the specification states it, fails where a submitted module's maximum in the exam
  configuration is not positive: the guard \<^verbatim>\<open>max_map[module] > 0\<close> then skips the module,
  so its time is not counted although the module was submitted.  Here coding was
  submitted with 1000 seconds and the exam's coding maximum is 0: the calculator reports
  total_time_sec = 0.
\<close>

theorem missing_module_policy_counterexample:
  "calculate_weighted_score
     [\<lparr>score_id = 1, ms_session_id = 1, module_type = ''coding'', raw_score = 0,
        max_score = 100, time_spent_sec = 1000, version = 1\<rparr>]
     \<lparr>exam_id = 1, weight_coding = 50, weight_quiz = 30, weight_assessment = 20,
      max_score_coding = 0, max_score_quiz = 100, max_score_assessment = 100\<rparr>
   = Inr \<lparr>weighted_coding = 0, weighted_quiz = 0, weighted_assessment = 0,
          total_score = 0, total_time_sec = 0\<rparr>
   \<and> time_of
     [\<lparr>score_id = 1, ms_session_id = 1, module_type = ''coding'', raw_score = 0,
        max_score = 100, time_spent_sec = 1000, version = 1\<rparr>] ''coding'' = 1000"
  by code_simp

text \<open>
  C4, amended.  Whenever the calculator returns a result: a module type with no
  ModuleScore row has weighted = 0; total_time_sec is the sum of time_spent_sec over the
  submitted modules whose exam maximum is positive (a module never submitted, or one
  whose exam maximum is not positive, adds no time).  A session with only coding
  submitted (raw 80, exam maximum 100, weight 50) yields weighted_coding = 40.0000,
  weighted_quiz = 0, weighted_assessment = 0, total_score = 40.0000 and the coding time
  alone as total_time_sec.
\<close>

theorem missing_module_policy:
  "(calculate_weighted_score mss exam = Inr w \<longrightarrow>
      (''coding'' \<notin> module_type ` set mss \<longrightarrow> weighted_coding w = 0) \<and>
      (''quiz'' \<notin> module_type ` set mss \<longrightarrow> weighted_quiz w = 0) \<and>
      (''assessment'' \<notin> module_type ` set mss \<longrightarrow> weighted_assessment w = 0) \<and>
      total_time_sec w =
        (if 0 < max_score_coding exam then time_of mss ''coding'' else 0)
        + (if 0 < max_score_quiz exam then time_of mss ''quiz'' else 0)
        + (if 0 < max_score_assessment exam then time_of mss ''assessment'' else 0))
   \<and> (weight_coding exam = 50 \<and> max_score_coding exam = 100 \<longrightarrow>
        calculate_weighted_score
          [\<lparr>score_id = i, ms_session_id = s, module_type = ''coding'', raw_score = 80,
             max_score = mx, time_spent_sec = t, version = v\<rparr>] exam
        = Inr \<lparr>weighted_coding = 40, weighted_quiz = 0, weighted_assessment = 0,
               total_score = 40, total_time_sec = t\<rparr>)"
proof -
  have general: "(''coding'' \<notin> module_type ` set mss \<longrightarrow> weighted_coding w = 0) \<and>
      (''quiz'' \<notin> module_type ` set mss \<longrightarrow> weighted_quiz w = 0) \<and>
      (''assessment'' \<notin> module_type ` set mss \<longrightarrow> weighted_assessment w = 0) \<and>
      total_time_sec w =
        (if 0 < max_score_coding exam then time_of mss ''coding'' else 0)
        + (if 0 < max_score_quiz exam then time_of mss ''quiz'' else 0)
        + (if 0 < max_score_assessment exam then time_of mss ''assessment'' else 0)"
    if r: "calculate_weighted_score mss exam = Inr w"
  proof -
    obtain wc tc where
      c: "module_term (max_score_coding exam) (weight_coding exam) (scores_dict mss ''coding'') = Inr (wc, tc)"
      using r by (cases "module_term (max_score_coding exam) (weight_coding exam) (scores_dict mss ''coding'')")
        (auto simp: calculate_unfold)
    obtain wq tq where
      q: "module_term (max_score_quiz exam) (weight_quiz exam) (scores_dict mss ''quiz'') = Inr (wq, tq)"
      using r c by (cases "module_term (max_score_quiz exam) (weight_quiz exam) (scores_dict mss ''quiz'')")
        (auto simp: calculate_unfold)
    obtain wa ta where
      a: "module_term (max_score_assessment exam) (weight_assessment exam) (scores_dict mss ''assessment'') = Inr (wa, ta)"
      using r c q by (cases "module_term (max_score_assessment exam) (weight_assessment exam) (scores_dict mss ''assessment'')")
        (auto simp: calculate_unfold)
    obtain ts where
      w: "w = \<lparr>weighted_coding = wc, weighted_quiz = wq, weighted_assessment = wa,
                   total_score = ts, total_time_sec = tc + tq + ta\<rparr>"
      using r c q a by (cases "quantize4 (dec_add (dec_add (dec_add 0 wc) wq) wa)")
        (auto simp: calculate_unfold)
    have 1: "weighted_coding w = 0" if "''coding'' \<notin> module_type ` set mss"
    proof -
      from that have "scores_dict mss ''coding'' = None" by (simp add: scores_dict_None)
      with c show ?thesis by (simp add: w module_term_None)
    qed
    have 2: "weighted_quiz w = 0" if "''quiz'' \<notin> module_type ` set mss"
    proof -
      from that have "scores_dict mss ''quiz'' = None" by (simp add: scores_dict_None)
      with q show ?thesis by (simp add: w module_term_None)
    qed
    have 3: "weighted_assessment w = 0" if "''assessment'' \<notin> module_type ` set mss"
    proof -
      from that have "scores_dict mss ''assessment'' = None" by (simp add: scores_dict_None)
      with a show ?thesis by (simp add: w module_term_None)
    qed
    have 4: "total_time_sec w =
        (if 0 < max_score_coding exam then time_of mss ''coding'' else 0)
        + (if 0 < max_score_quiz exam then time_of mss ''quiz'' else 0)
        + (if 0 < max_score_assessment exam then time_of mss ''assessment'' else 0)"
      using module_term_time[OF c] module_term_time[OF q] module_term_time[OF a]
      by (simp add: w time_of_def)
    from 1 2 3 4 show ?thesis by blast
  qed
  have example: "calculate_weighted_score
          [\<lparr>score_id = i, ms_session_id = s, module_type = ''coding'', raw_score = 80,
             max_score = mx, time_spent_sec = t, version = v\<rparr>] exam
        = Inr \<lparr>weighted_coding = 40, weighted_quiz = 0, weighted_assessment = 0,
               total_score = 40, total_time_sec = t\<rparr>"
    if "weight_coding exam = 50 \<and> max_score_coding exam = 100"
    using that
    by (simp add: calculate_unfold scores_dict_single module_term_def coding_80_of_100_weight_50)
  from general example show ?thesis by blast
qed

text \<open>The policy at a session with only the quiz submitted, and the coding-only example
  with 1234 seconds.\<close>

theorem missing_module_policy_witness:
  "calculate_weighted_score
     [\<lparr>score_id = 1, ms_session_id = 1, module_type = ''quiz'', raw_score = 90,
        max_score = 100, time_spent_sec = 500, version = 1\<rparr>]
     \<lparr>exam_id = 1, weight_coding = 50, weight_quiz = 30, weight_assessment = 20,
      max_score_coding = 100, max_score_quiz = 100, max_score_assessment = 100\<rparr>
   = Inr \<lparr>weighted_coding = 0, weighted_quiz = 27, weighted_assessment = 0,
          total_score = 27, total_time_sec = 500\<rparr>
   \<and> ''coding'' \<notin> module_type ` set
     [\<lparr>score_id = 1, ms_session_id = 1, module_type = ''quiz'', raw_score = 90,
        max_score = 100, time_spent_sec = 500, version = 1\<rparr>]
   \<and> weighted_coding \<lparr>weighted_coding = 0, weighted_quiz = 27, weighted_assessment = 0,
          total_score = 27, total_time_sec = (500::int)\<rparr> = (0::rat)
   \<and> calculate_weighted_score
          [\<lparr>score_id = 1, ms_session_id = 1, module_type = ''coding'', raw_score = 80,
             max_score = 100, time_spent_sec = 1234, version = 1\<rparr>]
          \<lparr>exam_id = 1, weight_coding = 50, weight_quiz = 30, weight_assessment = 20,
      max_score_coding = 100, max_score_quiz = 100, max_score_assessment = 100\<rparr>
        = Inr \<lparr>weighted_coding = 40, weighted_quiz = 0, weighted_assessment = 0,
               total_score = 40, total_time_sec = 1234\<rparr>"
proof -
  have h: "calculate_weighted_score
     [\<lparr>score_id = 1, ms_session_id = 1, module_type = ''quiz'', raw_score = 90,
        max_score = 100, time_spent_sec = 500, version = 1\<rparr>]
     \<lparr>exam_id = 1, weight_coding = 50, weight_quiz = 30, weight_assessment = 20,
      max_score_coding = 100, max_score_quiz = 100, max_score_assessment = 100\<rparr>
   = Inr \<lparr>weighted_coding = 0, weighted_quiz = 27, weighted_assessment = 0,
          total_score = 27, total_time_sec = 500\<rparr>"
    by code_simp
  show ?thesis
    using h
      missing_module_policy [of
        "[\<lparr>score_id = 1, ms_session_id = 1, module_type = ''quiz'', raw_score = 90,
           max_score = 100, time_spent_sec = 500, version = 1\<rparr>]"
        "\<lparr>exam_id = 1, weight_coding = 50, weight_quiz = 30, weight_assessment = 20,
          max_score_coding = 100, max_score_quiz = 100, max_score_assessment = 100\<rparr>"
        "\<lparr>weighted_coding = 0, weighted_quiz = 27, weighted_assessment = 0,
          total_score = 27, total_time_sec = 500\<rparr>"
        1 1 100 1234 1]
    by simp
qed

section \<open>The weighted-sum invariant\<close>

lemma places4_iff: "places4 x \<longleftrightarrow> (\<exists>k::int. x * 10 ^ 4 = of_int k)"
proof
  assume "places4 x"
  then have "of_int \<lfloor>x * 10 ^ 4\<rfloor> = x * 10 ^ 4" unfolding places4_def .
  then have "x * 10 ^ 4 = of_int \<lfloor>x * 10 ^ 4\<rfloor>" by (rule sym)
  then show "\<exists>k::int. x * 10 ^ 4 = of_int k" ..
next
  assume "\<exists>k::int. x * 10 ^ 4 = of_int k"
  then obtain k :: int where "x * 10 ^ 4 = of_int k" ..
  then show "places4 x" by (simp add: places4_def)
qed

lemma places4_add: "places4 a \<Longrightarrow> places4 b \<Longrightarrow> places4 (a + b)"
proof -
  assume "places4 a" "places4 b"
  then obtain k l :: int where "a * 10 ^ 4 = of_int k" "b * 10 ^ 4 = of_int l"
    unfolding places4_iff by blast
  then have "(a + b) * 10 ^ 4 = of_int (k + l)" by (simp add: algebra_simps)
  then show ?thesis unfolding places4_iff ..
qed

lemma places4_0: "places4 0"
  by (simp add: places4_def)

lemma round_half_even_nonneg: "0 \<le> y \<Longrightarrow> 0 \<le> round_half_even y"
  by (auto simp: round_half_even_def Let_def)

lemma round_ctx_nonneg: "0 \<le> x \<Longrightarrow> 0 \<le> round_ctx x"
  by (simp add: round_ctx_def Let_def pow10_pos less_imp_le round_half_even_nonneg)

lemma round_half_up_of_int: "round_half_up (of_int k) = k"
proof -
  have "\<lfloor>(of_int k :: rat) + 1 / 2\<rfloor> = k" "\<lfloor>- (of_int k :: rat) + 1 / 2\<rfloor> = - k"
    by linarith+
  then show ?thesis by (simp add: round_half_up_def)
qed

lemma dec_add_exact:
  assumes "places4 a" "places4 b" "\<bar>a + b\<bar> < 10 ^ 24"
  shows "dec_add a b = a + b"
proof -
  from places4_add[OF assms(1,2)] obtain k :: int where "(a + b) * 10 ^ 4 = of_int k"
    unfolding places4_iff ..
  with assms(3) show ?thesis unfolding dec_add_def by (rule round_ctx_id)
qed

lemma quantize4_exact:
  assumes "places4 x" "\<bar>x\<bar> < 10 ^ 24"
  shows "quantize4 x = Inr x"
proof -
  from assms(1) obtain k :: int where k: "x * 10 ^ 4 = of_int k"
    unfolding places4_iff ..
  have "\<bar>(of_int k :: rat)\<bar> = \<bar>x\<bar> * 10 ^ 4"
    unfolding k[symmetric] by (simp add: abs_mult)
  also have "\<dots> < 10 ^ 24 * 10 ^ 4"
    using assms(2) by (rule mult_strict_right_mono) simp
  finally have "\<bar>(of_int k :: rat)\<bar> < of_int (10 ^ 28)" by simp
  then have "\<bar>k\<bar> < 10 ^ 28" by (simp only: of_int_abs[symmetric] of_int_less_iff)
  moreover have "x = of_int k / 10 ^ 4" using k by (simp add: field_simps)
  ultimately show ?thesis
    by (simp add: quantize4_def k round_half_up_of_int prec_def)
qed

lemma weighted_term:
  assumes mx: "0 < mx" and raw: "0 \<le> raw" "raw \<le> mx"
      and w: "0 \<le> w" "w \<le> 100" and pw: "places4 w"
  shows "\<exists>c. quantize4 (dec_mul (dec_div raw mx) w) = Inr c \<and> 0 \<le> c \<and> c \<le> w \<and> places4 c
             \<and> \<bar>c - raw / mx * w\<bar> \<le> 1 / 20000 + 1 / 10 ^ 24"
proof -
  define n where "n = raw / mx"
  define n' where "n' = round_ctx n"
  define p where "p = n' * w"
  define y where "y = round_ctx p"
  define r where "r = round_half_up (y * 10 ^ 4)"
  define c where "c = (of_int r :: rat) / 10 ^ 4"
  have n0: "0 \<le> n" and n1: "n \<le> 1" using mx raw by (simp_all add: n_def)
  have n'0: "0 \<le> n'" unfolding n'_def using n0 by (rule round_ctx_nonneg)
  define d where "d = (1::rat) / (2 * 10 ^ 27)"
  have d0: "0 \<le> d" and d1: "201 * d \<le> 1 / 10 ^ 24" and d2: "100 * d \<le> 1"
    by (simp_all add: d_def)
  have en: "\<bar>n' - n\<bar> \<le> d"
  proof -
    have "\<bar>n' - n\<bar> \<le> \<bar>n\<bar> / (2 * 10 ^ 27)" unfolding n'_def by (rule round_ctx_err)
    also have "\<dots> \<le> 1 / (2 * 10 ^ 27)" using n0 n1 by (simp add: divide_right_mono)
    finally show ?thesis by (simp only: d_def)
  qed
  have p0: "0 \<le> p" using n'0 w by (simp add: p_def)
  have ep: "\<bar>p - n * w\<bar> \<le> 100 * d"
  proof -
    have "p - n * w = (n' - n) * w" by (simp add: p_def algebra_simps)
    then have "\<bar>p - n * w\<bar> = \<bar>n' - n\<bar> * w" using w by (simp add: abs_mult)
    also have "\<dots> \<le> d * 100"
      using en w d0 by (intro mult_mono) simp_all
    finally show ?thesis by simp
  qed
  have nw: "0 \<le> n * w" "n * w \<le> w" using n0 n1 w by (simp_all add: mult_left_le_one_le)
  have p101: "p \<le> 101" using ep nw w d2 by linarith
  have y0: "0 \<le> y" unfolding y_def using p0 by (rule round_ctx_nonneg)
  have ey: "\<bar>y - p\<bar> \<le> 101 * d"
  proof -
    have "\<bar>y - p\<bar> \<le> \<bar>p\<bar> / (2 * 10 ^ 27)" unfolding y_def by (rule round_ctx_err)
    also have "\<dots> = \<bar>p\<bar> * d" by (simp add: d_def)
    also have "\<dots> \<le> 101 * d" using p0 p101 d0 by (simp add: mult_right_mono)
    finally show ?thesis .
  qed
  have eyx: "\<bar>y - n * w\<bar> \<le> 1 / 10 ^ 24" using ey ep d1 by linarith
  have r_floor: "r = \<lfloor>y * 10 ^ 4 + 1 / 2\<rfloor>" using y0 by (simp add: r_def round_half_up_def)
  have r0: "0 \<le> r" using y0 by (simp add: r_floor)
  have er: "\<bar>of_int r - y * 10 ^ 4\<bar> \<le> 1 / 2" unfolding r_def by (rule round_half_up_err)
  from pw obtain kw :: int where kw: "w * 10 ^ 4 = of_int kw" unfolding places4_iff ..
  have kw': "(of_int kw :: rat) = w * 10000" using kw by simp
  have yw: "y \<le> w + 1 / 10 ^ 24" using eyx nw by linarith
  have "y * 10 ^ 4 + 1 / 2 < of_int kw + 1"
  proof -
    have "y * 10 ^ 4 \<le> (w + 1 / 10 ^ 24) * 10 ^ 4" using yw by (simp only: mult_le_cancel_right) simp
    also have "\<dots> = of_int kw + 1 / 10 ^ 20" by (simp add: kw[symmetric] algebra_simps)
    finally show ?thesis by simp
  qed
  then have "y * 10 ^ 4 + 1 / 2 < of_int (kw + 1)" by simp
  then have "r < kw + 1" unfolding r_floor by (simp only: floor_less_iff)
  then have rkw: "r \<le> kw" by simp
  have c0: "0 \<le> c" using r0 by (simp add: c_def)
  have cw: "c \<le> w"
  proof -
    have "(of_int r :: rat) \<le> of_int kw" using rkw by (simp only: of_int_le_iff)
    then have "c * 10 ^ 4 \<le> w * 10 ^ 4" by (simp add: c_def kw')
    then show ?thesis by simp
  qed
  have pc: "places4 c" unfolding places4_iff by (rule exI[of _ r]) (simp add: c_def)
  have ec: "\<bar>c - y\<bar> \<le> 1 / 20000"
  proof -
    have e1: "of_int r - y * 10 ^ 4 = (c - y) * 10000" by (simp add: c_def algebra_simps)
    have "\<bar>(c - y) * 10000\<bar> \<le> 1 / 2" using er unfolding e1 .
    moreover have "\<bar>(c - y) * 10000\<bar> = \<bar>c - y\<bar> * 10000" by (subst abs_mult) simp
    ultimately have "\<bar>c - y\<bar> * 10000 \<le> 1 / 2" by (simp only:)
    then show ?thesis by simp
  qed
  have "r \<le> 10 ^ 6" using rkw w kw
  proof -
    have "(of_int kw :: rat) \<le> of_int (10 ^ 6)" using w by (simp add: kw')
    then have "kw \<le> 10 ^ 6" by (simp only: of_int_le_iff)
    with rkw show ?thesis by simp
  qed
  then have "\<not> 10 ^ prec \<le> \<bar>r\<bar>" using r0 by (simp add: prec_def)
  then have q: "quantize4 (dec_mul (dec_div raw mx) w) = Inr c"
    by (simp add: quantize4_def dec_mul_def dec_div_def r_def y_def p_def n'_def n_def c_def Let_def)
  have "\<bar>c - raw / mx * w\<bar> \<le> 1 / 20000 + 1 / 10 ^ 24"
    using ec eyx unfolding n_def by linarith
  with q c0 cw pc show ?thesis by blast
qed

lemma module_term_Some:
  assumes "0 < mx" "quantize4 (dec_mul (dec_div (raw_score ms) mx) w) = Inr c"
  shows "module_term mx w (Some ms) = Inr (c, time_spent_sec ms)"
  using assms by (simp add: module_term_def)

text \<open>
  C3, amended.  Let the exam weights be non-negative numbers with at most four
  fractional digits (the weight columns have two) that sum to 100, every module maximum
  positive, and all three modules submitted with 0 \<le> raw \<le> the exam's maximum of the
  module.  Then the calculator returns a result; each weighted component lies within
  0.00005 + 1e-24 of (raw / max) * weight; total_score is the sum of the three
  weighted components, hence within 0.00015 + 3e-24 of the exact weighted sum; and
  total_score lies in [0, 100].
\<close>

theorem weighted_sum_invariant:
  assumes w0: "0 \<le> weight_coding exam" "0 \<le> weight_quiz exam" "0 \<le> weight_assessment exam"
      and wsum: "weight_coding exam + weight_quiz exam + weight_assessment exam = 100"
      and wpl: "places4 (weight_coding exam)" "places4 (weight_quiz exam)"
               "places4 (weight_assessment exam)"
      and mx: "0 < max_score_coding exam" "0 < max_score_quiz exam" "0 < max_score_assessment exam"
      and rows: "scores_dict mss ''coding'' = Some c" "scores_dict mss ''quiz'' = Some q"
                "scores_dict mss ''assessment'' = Some a"
      and raws: "0 \<le> raw_score c" "raw_score c \<le> max_score_coding exam"
                "0 \<le> raw_score q" "raw_score q \<le> max_score_quiz exam"
                "0 \<le> raw_score a" "raw_score a \<le> max_score_assessment exam"
  shows "\<exists>w. calculate_weighted_score mss exam = Inr w
           \<and> total_score w = weighted_coding w + weighted_quiz w + weighted_assessment w
           \<and> \<bar>weighted_coding w - raw_score c / max_score_coding exam * weight_coding exam\<bar>
                 \<le> 1 / 20000 + 1 / 10 ^ 24
           \<and> \<bar>weighted_quiz w - raw_score q / max_score_quiz exam * weight_quiz exam\<bar>
                 \<le> 1 / 20000 + 1 / 10 ^ 24
           \<and> \<bar>weighted_assessment w
                 - raw_score a / max_score_assessment exam * weight_assessment exam\<bar>
                 \<le> 1 / 20000 + 1 / 10 ^ 24
           \<and> \<bar>total_score w
                 - (raw_score c / max_score_coding exam * weight_coding exam
                    + raw_score q / max_score_quiz exam * weight_quiz exam
                    + raw_score a / max_score_assessment exam * weight_assessment exam)\<bar>
                 \<le> 3 / 20000 + 3 / 10 ^ 24
           \<and> 0 \<le> total_score w \<and> total_score w \<le> 100"
proof -
  have wc100: "weight_coding exam \<le> 100" and wq100: "weight_quiz exam \<le> 100"
    and wa100: "weight_assessment exam \<le> 100"
    using w0 wsum by linarith+
  from weighted_term[OF mx(1) raws(1,2) w0(1) wc100 wpl(1)] obtain wc where
    c: "quantize4 (dec_mul (dec_div (raw_score c) (max_score_coding exam)) (weight_coding exam)) = Inr wc"
    and c0: "0 \<le> wc" and cw: "wc \<le> weight_coding exam" and cp: "places4 wc"
    and ce: "\<bar>wc - raw_score c / max_score_coding exam * weight_coding exam\<bar> \<le> 1 / 20000 + 1 / 10 ^ 24"
    by blast
  from weighted_term[OF mx(2) raws(3,4) w0(2) wq100 wpl(2)] obtain wq where
    q: "quantize4 (dec_mul (dec_div (raw_score q) (max_score_quiz exam)) (weight_quiz exam)) = Inr wq"
    and q0: "0 \<le> wq" and qw: "wq \<le> weight_quiz exam" and qp: "places4 wq"
    and qe: "\<bar>wq - raw_score q / max_score_quiz exam * weight_quiz exam\<bar> \<le> 1 / 20000 + 1 / 10 ^ 24"
    by blast
  from weighted_term[OF mx(3) raws(5,6) w0(3) wa100 wpl(3)] obtain wa where
    a: "quantize4 (dec_mul (dec_div (raw_score a) (max_score_assessment exam)) (weight_assessment exam)) = Inr wa"
    and a0: "0 \<le> wa" and aw: "wa \<le> weight_assessment exam" and ap: "places4 wa"
    and ae: "\<bar>wa - raw_score a / max_score_assessment exam * weight_assessment exam\<bar> \<le> 1 / 20000 + 1 / 10 ^ 24"
    by blast
  have big: "(100::rat) < 10 ^ 24" by simp
  have s1: "dec_add 0 wc = wc"
    using dec_add_exact[OF places4_0 cp] c0 cw wc100 big by simp
  have s2: "dec_add wc wq = wc + wq"
    using dec_add_exact[OF cp qp] c0 cw q0 qw w0 wsum big by simp
  have p2: "places4 (wc + wq)" using cp qp by (rule places4_add)
  have s3: "dec_add (wc + wq) wa = wc + wq + wa"
    using dec_add_exact[OF p2 ap] c0 cw q0 qw a0 aw wsum big by simp
  have p3: "places4 (wc + wq + wa)" using p2 ap by (rule places4_add)
  have s4: "quantize4 (wc + wq + wa) = Inr (wc + wq + wa)"
    using quantize4_exact[OF p3] c0 cw q0 qw a0 aw wsum big by simp
  define w where "w = \<lparr>weighted_coding = wc, weighted_quiz = wq, weighted_assessment = wa,
                        total_score = wc + wq + wa,
                        total_time_sec = time_spent_sec c + time_spent_sec q + time_spent_sec a\<rparr>"
  have r: "calculate_weighted_score mss exam = Inr w"
    by (simp add: calculate_unfold rows module_term_Some[OF mx(1) c] module_term_Some[OF mx(2) q]
        module_term_Some[OF mx(3) a] s1 s2 s3 s4 w_def)
  have tot: "\<bar>wc + wq + wa
                 - (raw_score c / max_score_coding exam * weight_coding exam
                    + raw_score q / max_score_quiz exam * weight_quiz exam
                    + raw_score a / max_score_assessment exam * weight_assessment exam)\<bar>
                 \<le> 3 / 20000 + 3 / 10 ^ 24"
    using ce qe ae by linarith
  have lo: "0 \<le> wc + wq + wa" using c0 q0 a0 by simp
  have hi: "wc + wq + wa \<le> 100" using cw qw aw wsum by linarith
  have sel: "weighted_coding w = wc" "weighted_quiz w = wq" "weighted_assessment w = wa"
    "total_score w = wc + wq + wa"
    by (simp_all add: w_def)
  show ?thesis
    by (rule exI[of _ w], unfold sel) (intro conjI r refl ce qe ae tot lo hi)
qed

text \<open>
  C3 as the specification states it fails in two ways.

  With weights 0.07, 49.49, 50.44 (sum 100), maximums 280, 100, 100 and raw scores 3,
  0.01, 0.01 the calculator returns total_score 0.0106 while the exact weighted sum is
  0.010743: the total is the sum of three separately rounded terms, so it is off by
  0.000143, more than a unit of the fourth fractional digit, and it is not the exact sum
  rounded half-up (0.0107).  The coding term shows a second effect: the exact product is
  0.00075, which round-half-up takes to 0.0008, but the quotient 3/280 is first rounded
  to 28 significant digits, the product falls just below the tie, and the calculator
  returns 0.0007.

  With weights 33.33335, 33.33335, 33.3333 (sum 100) and every raw score equal to its
  maximum, total_score is 100.0001, outside [0, 100].
\<close>

theorem weighted_sum_invariant_counterexample:
  "calculate_weighted_score
     [\<lparr>score_id = 1, ms_session_id = 1, module_type = ''coding'', raw_score = 3,
        max_score = 280, time_spent_sec = 10, version = 1\<rparr>,
      \<lparr>score_id = 2, ms_session_id = 1, module_type = ''quiz'', raw_score = 1 / 100,
        max_score = 100, time_spent_sec = 10, version = 1\<rparr>,
      \<lparr>score_id = 3, ms_session_id = 1, module_type = ''assessment'', raw_score = 1 / 100,
        max_score = 100, time_spent_sec = 10, version = 1\<rparr>]
     \<lparr>exam_id = 1, weight_coding = 7 / 100, weight_quiz = 4949 / 100,
      weight_assessment = 5044 / 100,
      max_score_coding = 280, max_score_quiz = 100, max_score_assessment = 100\<rparr>
   = Inr \<lparr>weighted_coding = 7 / 10000, weighted_quiz = 49 / 10000,
          weighted_assessment = 50 / 10000, total_score = 106 / 10000, total_time_sec = 30\<rparr>
   \<and> (7 / 100 + 4949 / 100 + 5044 / 100 :: rat) = 100
   \<and> (3 / 280 * (7 / 100) + (1 / 100) / 100 * (4949 / 100) + (1 / 100) / 100 * (5044 / 100) :: rat)
       = 10743 / 1000000
   \<and> (10743 / 1000000 - 106 / 10000 :: rat) = 143 / 1000000
   \<and> quantize4 (3 / 280 * (7 / 100)) = Inr (8 / 10000)
   \<and> quantize4 (10743 / 1000000) = Inr (107 / 10000)
   \<and> calculate_weighted_score
     [\<lparr>score_id = 1, ms_session_id = 1, module_type = ''coding'', raw_score = 100,
        max_score = 100, time_spent_sec = 10, version = 1\<rparr>,
      \<lparr>score_id = 2, ms_session_id = 1, module_type = ''quiz'', raw_score = 100,
        max_score = 100, time_spent_sec = 10, version = 1\<rparr>,
      \<lparr>score_id = 3, ms_session_id = 1, module_type = ''assessment'', raw_score = 100,
        max_score = 100, time_spent_sec = 10, version = 1\<rparr>]
     \<lparr>exam_id = 1, weight_coding = 3333335 / 100000, weight_quiz = 3333335 / 100000,
      weight_assessment = 333333 / 10000,
      max_score_coding = 100, max_score_quiz = 100, max_score_assessment = 100\<rparr>
   = Inr \<lparr>weighted_coding = 333334 / 10000, weighted_quiz = 333334 / 10000,
          weighted_assessment = 333333 / 10000, total_score = 1000001 / 10000,
          total_time_sec = 30\<rparr>
   \<and> (3333335 / 100000 + 3333335 / 100000 + 333333 / 10000 :: rat) = 100"
  by code_simp

text \<open>The invariant at the first configuration above.\<close>

theorem weighted_sum_invariant_witness:
  "\<exists>w. calculate_weighted_score
     [\<lparr>score_id = 1, ms_session_id = 1, module_type = ''coding'', raw_score = 3,
        max_score = 280, time_spent_sec = 10, version = 1\<rparr>,
      \<lparr>score_id = 2, ms_session_id = 1, module_type = ''quiz'', raw_score = 1 / 100,
        max_score = 100, time_spent_sec = 10, version = 1\<rparr>,
      \<lparr>score_id = 3, ms_session_id = 1, module_type = ''assessment'', raw_score = 1 / 100,
        max_score = 100, time_spent_sec = 10, version = 1\<rparr>]
     \<lparr>exam_id = 1, weight_coding = 7 / 100, weight_quiz = 4949 / 100,
      weight_assessment = 5044 / 100,
      max_score_coding = 280, max_score_quiz = 100, max_score_assessment = 100\<rparr> = Inr w
     \<and> total_score w = weighted_coding w + weighted_quiz w + weighted_assessment w
     \<and> \<bar>weighted_coding w - 3 / 280 * (7 / 100)\<bar> \<le> 1 / 20000 + 1 / 10 ^ 24
     \<and> \<bar>total_score w - 10743 / 1000000\<bar> \<le> 3 / 20000 + 3 / 10 ^ 24
     \<and> 0 \<le> total_score w \<and> total_score w \<le> 100"
proof -
  let ?c = "\<lparr>score_id = 1, ms_session_id = 1, module_type = ''coding'', raw_score = 3,
        max_score = 280, time_spent_sec = 10, version = 1\<rparr>"
  let ?q = "\<lparr>score_id = 2, ms_session_id = 1, module_type = ''quiz'', raw_score = 1 / 100,
        max_score = 100, time_spent_sec = 10, version = 1\<rparr>"
  let ?a = "\<lparr>score_id = 3, ms_session_id = 1, module_type = ''assessment'', raw_score = 1 / 100,
        max_score = 100, time_spent_sec = 10, version = 1\<rparr>"
  let ?e = "\<lparr>exam_id = 1, weight_coding = 7 / 100, weight_quiz = 4949 / 100,
      weight_assessment = 5044 / 100,
      max_score_coding = 280, max_score_quiz = 100, max_score_assessment = 100\<rparr>"
  have rows: "scores_dict [?c, ?q, ?a] ''coding'' = Some ?c"
    "scores_dict [?c, ?q, ?a] ''quiz'' = Some ?q"
    "scores_dict [?c, ?q, ?a] ''assessment'' = Some ?a"
    by (simp_all add: scores_dict_def)
  have pl: "places4 (weight_coding ?e)" "places4 (weight_quiz ?e)" "places4 (weight_assessment ?e)"
    by (simp_all add: places4_def)
  have "\<exists>w. calculate_weighted_score [?c, ?q, ?a] ?e = Inr w
           \<and> total_score w = weighted_coding w + weighted_quiz w + weighted_assessment w
           \<and> \<bar>weighted_coding w - raw_score ?c / max_score_coding ?e * weight_coding ?e\<bar>
                 \<le> 1 / 20000 + 1 / 10 ^ 24
           \<and> \<bar>weighted_quiz w - raw_score ?q / max_score_quiz ?e * weight_quiz ?e\<bar>
                 \<le> 1 / 20000 + 1 / 10 ^ 24
           \<and> \<bar>weighted_assessment w
                 - raw_score ?a / max_score_assessment ?e * weight_assessment ?e\<bar>
                 \<le> 1 / 20000 + 1 / 10 ^ 24
           \<and> \<bar>total_score w
                 - (raw_score ?c / max_score_coding ?e * weight_coding ?e
                    + raw_score ?q / max_score_quiz ?e * weight_quiz ?e
                    + raw_score ?a / max_score_assessment ?e * weight_assessment ?e)\<bar>
                 \<le> 3 / 20000 + 3 / 10 ^ 24
           \<and> 0 \<le> total_score w \<and> total_score w \<le> 100"
    by (rule weighted_sum_invariant[OF _ _ _ _ pl _ _ _ rows]) simp_all
  then obtain w where h: "calculate_weighted_score [?c, ?q, ?a] ?e = Inr w"
    "total_score w = weighted_coding w + weighted_quiz w + weighted_assessment w"
    "\<bar>weighted_coding w - raw_score ?c / max_score_coding ?e * weight_coding ?e\<bar>
                 \<le> 1 / 20000 + 1 / 10 ^ 24"
    "\<bar>total_score w
                 - (raw_score ?c / max_score_coding ?e * weight_coding ?e
                    + raw_score ?q / max_score_quiz ?e * weight_quiz ?e
                    + raw_score ?a / max_score_assessment ?e * weight_assessment ?e)\<bar>
                 \<le> 3 / 20000 + 3 / 10 ^ 24"
    "0 \<le> total_score w" "total_score w \<le> 100"
    by blast
  show ?thesis
    using h by (intro exI[of _ w]) simp
qed

section \<open>Dense ranking\<close>

subsection \<open>The pass over the ordered keys\<close>

lemma dense_pass_card:
  fixes prev :: "'k::linorder"
  assumes "sorted (prev # ks)"
  shows "dense_pass prev rk ks
           = map (\<lambda>k. rk + int (card {k' \<in> set ks. prev < k' \<and> k' \<le> k})) ks"
  using assms
proof (induction ks arbitrary: prev rk)
  case Nil
  show ?case by simp
next
  case (Cons k ks)
  from Cons.prems have pk: "prev \<le> k" and sk: "sorted (k # ks)"
    and ge: "\<forall>x \<in> set ks. k \<le> x" by auto
  define c where "c = (\<lambda>x. card {k' \<in> set (k # ks). prev < k' \<and> k' \<le> x})"
  define c' where "c' = (\<lambda>x. card {k' \<in> set ks. k < k' \<and> k' \<le> x})"
  have IH: "dense_pass k r ks = map (\<lambda>x. r + int (c' x)) ks" for r
    unfolding c'_def by (rule Cons.IH[OF sk])
  have goal: "dense_pass prev rk (k # ks) = map (\<lambda>x. rk + int (c x)) (k # ks)"
  proof (cases "k = prev")
    case True
    have "{k' \<in> set (k # ks). prev < k' \<and> k' \<le> k} = {}" using True by auto
    then have hd: "c k = 0" by (simp only: c_def card.empty)
    have tl: "c x = c' x" for x
    proof -
      have "{k' \<in> set (k # ks). prev < k' \<and> k' \<le> x} = {k' \<in> set ks. k < k' \<and> k' \<le> x}"
        using True by auto
      then show ?thesis by (simp only: c_def c'_def)
    qed
    have "dense_pass prev rk (k # ks) = rk # dense_pass k rk ks" using True by (simp add: Let_def)
    also have "\<dots> = map (\<lambda>x. rk + int (c x)) (k # ks)"
      using hd by (simp add: IH tl)
    finally show ?thesis .
  next
    case False
    with pk have lt: "prev < k" by simp
    have "{k' \<in> set (k # ks). prev < k' \<and> k' \<le> k} = {k}" using lt ge by auto
    then have hd: "c k = 1" by (simp only: c_def) simp
    have tl: "c x = Suc (c' x)" if "x \<in> set ks" for x
    proof -
      have kx: "k \<le> x" using ge that by simp
      have "{k' \<in> set (k # ks). prev < k' \<and> k' \<le> x}
              = insert k {k' \<in> set ks. k < k' \<and> k' \<le> x}"
        using lt ge kx by auto
      then have "c x = card (insert k {k' \<in> set ks. k < k' \<and> k' \<le> x})"
        by (simp only: c_def)
      also have "\<dots> = Suc (c' x)" unfolding c'_def by simp
      finally show ?thesis .
    qed
    have "map (\<lambda>x. rk + 1 + int (c' x)) ks = map (\<lambda>x. rk + int (c x)) ks"
      by (rule map_cong) (simp_all add: tl)
    moreover have "dense_pass prev rk (k # ks) = (rk + 1) # dense_pass k (rk + 1) ks"
      using False by (simp add: Let_def)
    ultimately show ?thesis by (simp add: IH hd)
  qed
  then show ?case by (simp only: c_def)
qed

lemma dense_rank_card:
  fixes ks :: "'k::linorder list"
  assumes "sorted ks"
  shows "dense_rank ks = map (\<lambda>k. int (card {k' \<in> set ks. k' \<le> k})) ks"
proof (cases ks)
  case Nil
  then show ?thesis by simp
next
  case (Cons k0 rest)
  have ge: "\<forall>x \<in> set rest. k0 \<le> x" using assms Cons by simp
  have sp: "sorted (k0 # rest)" using assms Cons by simp
  define c where "c = (\<lambda>x. card {k' \<in> set (k0 # rest). k' \<le> x})"
  define c' where "c' = (\<lambda>x. card {k' \<in> set rest. k0 < k' \<and> k' \<le> x})"
  have cc: "c x = Suc (c' x)" if "k0 \<le> x" for x
  proof -
    have "{k' \<in> set (k0 # rest). k' \<le> x} = insert k0 {k' \<in> set rest. k0 < k' \<and> k' \<le> x}"
      using that ge by auto
    then have "c x = card (insert k0 {k' \<in> set rest. k0 < k' \<and> k' \<le> x})"
      by (simp only: c_def)
    also have "\<dots> = Suc (c' x)" unfolding c'_def by simp
    finally show ?thesis .
  qed
  have dp: "dense_pass k0 1 rest = map (\<lambda>x. 1 + int (c' x)) rest"
    unfolding c'_def by (rule dense_pass_card[OF sp])
  have "map (\<lambda>x. 1 + int (c' x)) rest = map (\<lambda>x. int (c x)) rest"
    by (rule map_cong) (simp_all add: cc ge)
  moreover have "int (c k0) = 1"
  proof -
    have "{k' \<in> set rest. k0 < k' \<and> k' \<le> k0} = {}" by auto
    then have "c' k0 = 0" by (simp only: c'_def card.empty)
    then show ?thesis using cc[of k0] by simp
  qed
  ultimately have "dense_rank (k0 # rest) = map (\<lambda>x. int (c x)) (k0 # rest)"
    by (simp add: dp)
  then show ?thesis unfolding Cons by (simp only: c_def)
qed

subsection \<open>Sorting rows whose fields other than the rank are kept\<close>

lemma insort_key_map_keep:
  assumes "\<And>x. k (f x) = k x"
  shows "insort_key k (f x) (map f xs) = map f (insort_key k x xs)"
  by (induction xs) (simp_all add: assms)

lemma sort_key_map_keep:
  assumes "\<And>x. k (f x) = k x"
  shows "sort_key k (map f xs) = map f (sort_key k xs)"
  by (induction xs) (simp_all add: insort_key_map_keep[of k f, OF assms])

lemma distinct_map_insort_key:
  "distinct (map g (insort_key k x xs)) \<longleftrightarrow> g x \<notin> g ` set xs \<and> distinct (map g xs)"
  by (induction xs) (auto simp: set_insort_key)

lemma distinct_map_sort_key: "distinct (map g (sort_key k xs)) = distinct (map g xs)"
  by (induction xs) (simp_all add: distinct_map_insort_key)

subsection \<open>Counting the keys up to a key\<close>

lemma le_card_strict:
  fixes K :: "'k::linorder set"
  assumes "finite K" "k2 \<in> K" "k1 < k2"
  shows "card {k' \<in> K. k' \<le> k1} < card {k' \<in> K. k' \<le> k2}"
proof (rule psubset_card_mono)
  show "finite {k' \<in> K. k' \<le> k2}" using assms(1) by simp
  have n: "\<not> k2 \<le> k1" using assms(3) by (simp add: not_le)
  have "{k' \<in> K. k' \<le> k1} \<subseteq> {k' \<in> K. k' \<le> k2}" using assms(3) by auto
  moreover have "k2 \<in> {k' \<in> K. k' \<le> k2}" using assms(2) by simp
  moreover have "k2 \<notin> {k' \<in> K. k' \<le> k1}" using n by simp
  ultimately show "{k' \<in> K. k' \<le> k1} \<subset> {k' \<in> K. k' \<le> k2}" by blast
qed

lemma le_card_adjacent:
  fixes K :: "'k::linorder set"
  assumes "finite K" "k2 \<in> K" "k1 < k2" "\<forall>k \<in> K. \<not> (k1 < k \<and> k < k2)"
  shows "card {k' \<in> K. k' \<le> k2} = Suc (card {k' \<in> K. k' \<le> k1})"
proof -
  have "{k' \<in> K. k' \<le> k2} = insert k2 {k' \<in> K. k' \<le> k1}"
    using assms(2,3,4) by (auto simp: not_less)
  moreover have "k2 \<notin> {k' \<in> K. k' \<le> k1}" using assms(3) by (simp add: not_le)
  moreover have "finite {k' \<in> K. k' \<le> k1}" using assms(1) by simp
  ultimately show ?thesis by simp
qed

lemma le_card_image:
  fixes K :: "'k::linorder set"
  assumes "finite K"
  shows "(\<lambda>k. card {k' \<in> K. k' \<le> k}) ` K = {1..card K}"
proof (rule card_subset_eq)
  let ?R = "\<lambda>k. card {k' \<in> K. k' \<le> k}"
  show "finite {1..card K}" by simp
  show "?R ` K \<subseteq> {1..card K}"
  proof
    fix n assume "n \<in> ?R ` K"
    then obtain k where k: "k \<in> K" and n: "n = ?R k" by blast
    have "{k' \<in> K. k' \<le> k} \<noteq> {}" using k by auto
    then have "0 < ?R k" using assms by (simp add: card_gt_0_iff)
    moreover have "?R k \<le> card K" using assms by (intro card_mono) auto
    ultimately show "n \<in> {1..card K}" using n by simp
  qed
  have "inj_on ?R K"
  proof (rule inj_onI)
    fix a b assume a: "a \<in> K" and b: "b \<in> K" and eq: "?R a = ?R b"
    show "a = b"
    proof (rule ccontr)
      assume "a \<noteq> b"
      then consider "a < b" | "b < a" by (meson linorder_neqE)
      then show False
        using le_card_strict[OF assms b, of a] le_card_strict[OF assms a, of b] eq
        by cases simp_all
    qed
  qed
  then show "card (?R ` K) = card {1..card K}" by (simp add: card_image)
qed

subsection \<open>The refresh in closed form\<close>

lemma rank_key_less: "rank_key r1 < rank_key r2 \<longleftrightarrow> precedes r1 r2"
  by (auto simp: rank_key_def precedes_def)

lemma rank_key_eq:
  "rank_key r1 = rank_key r2 \<longleftrightarrow>
     lb_total_score r1 = lb_total_score r2 \<and> lb_total_time_sec r1 = lb_total_time_sec r2"
  by (auto simp: rank_key_def)

lemma ranked_closed:
  "ranked e lb =
     map (\<lambda>r. (snapshot_id r,
                int (card {k' \<in> rank_key ` {r \<in> set lb. lb_exam_id r = e}. k' \<le> rank_key r})))
       (sort_key rank_key (filter (\<lambda>r. lb_exam_id r = e) lb))"
proof -
  define rows where "rows = sort_key rank_key (filter (\<lambda>r. lb_exam_id r = e) lb)"
  have s: "sorted (map rank_key rows)" unfolding rows_def by (rule sorted_sort_key)
  have K: "set (map rank_key rows) = rank_key ` {r \<in> set lb. lb_exam_id r = e}"
    by (simp add: rows_def)
  have "ranked e lb = zip (map snapshot_id rows) (dense_rank (map rank_key rows))"
    by (simp add: ranked_def rows_def Let_def)
  also have "\<dots> = zip (map snapshot_id rows)
      (map (\<lambda>k. int (card {k' \<in> rank_key ` {r \<in> set lb. lb_exam_id r = e}. k' \<le> k}))
         (map rank_key rows))"
    unfolding dense_rank_card[OF s] K ..
  also have "\<dots> = map (\<lambda>r. (snapshot_id r,
                int (card {k' \<in> rank_key ` {r \<in> set lb. lb_exam_id r = e}. k' \<le> rank_key r}))) rows"
    by (induction rows) simp_all
  finally show ?thesis unfolding rows_def .
qed


lemma map_of_ranked:
  assumes d: "distinct (map snapshot_id lb)" and r: "r \<in> set lb" and e: "lb_exam_id r = e"
  shows "map_of (ranked e lb) (snapshot_id r)
           = Some (int (card {k' \<in> rank_key ` {r \<in> set lb. lb_exam_id r = e}. k' \<le> rank_key r}))"
proof -
  let ?rows = "sort_key rank_key (filter (\<lambda>r. lb_exam_id r = e) lb)"
  let ?R = "\<lambda>r. int (card {k' \<in> rank_key ` {r \<in> set lb. lb_exam_id r = e}. k' \<le> rank_key r})"
  have "distinct (map snapshot_id (filter (\<lambda>r. lb_exam_id r = e) lb))"
    using d by (rule distinct_map_filter)
  then have "distinct (map snapshot_id ?rows)" by (simp only: distinct_map_sort_key)
  then have "distinct (map fst (map (\<lambda>r. (snapshot_id r, ?R r)) ?rows))"
    by (simp add: comp_def)
  moreover have "(snapshot_id r, ?R r) \<in> set (map (\<lambda>r. (snapshot_id r, ?R r)) ?rows)"
    using r e by auto
  ultimately show ?thesis unfolding ranked_closed by (rule map_of_is_SomeI)
qed

lemma refresh_rows_closed:
  assumes d: "distinct (map snapshot_id lb)"
  shows "fst (refresh_rows e lb) =
           map (\<lambda>r. if lb_exam_id r = e
                     then r\<lparr>rank_position :=
                            int (card {k' \<in> rank_key ` {r \<in> set lb. lb_exam_id r = e}.
                                         k' \<le> rank_key r})\<rparr>
                     else r) lb"
  unfolding refresh_rows_def Let_def fst_conv
  by (rule map_cong) (simp_all add: map_of_ranked[OF d])

lemma exam_rows_refresh:
  assumes d: "distinct (map snapshot_id (leaderboard_snapshot st))"
    and r': "r' \<in> exam_rows e (fst (refresh_ranks e st))"
  shows "rank_key r' \<in> rank_key ` exam_rows e st"
    and "rank_position r' = int (card {k' \<in> rank_key ` exam_rows e st. k' \<le> rank_key r'})"
proof -
  let ?lb = "leaderboard_snapshot st"
  let ?f = "\<lambda>r. if lb_exam_id r = e
                     then r\<lparr>rank_position :=
                            int (card {k' \<in> rank_key ` {r \<in> set ?lb. lb_exam_id r = e}.
                                         k' \<le> rank_key r})\<rparr>
                     else r"
  have "leaderboard_snapshot (fst (refresh_ranks e st)) = fst (refresh_rows e ?lb)"
    by (simp add: refresh_ranks_def case_prod_beta Let_def)
  then have lb': "leaderboard_snapshot (fst (refresh_ranks e st)) = map ?f ?lb"
    by (simp only: refresh_rows_closed[OF d])
  from r' obtain r where r: "r \<in> set ?lb" and rr: "r' = ?f r" and e': "lb_exam_id r' = e"
    unfolding exam_rows_def lb' by auto
  have e: "lb_exam_id r = e" using rr e' by (auto split: if_splits)
  have k: "rank_key r' = rank_key r" using rr by (simp add: rank_key_def)
  show "rank_key r' \<in> rank_key ` exam_rows e st"
    using r e k by (auto simp: exam_rows_def)
  show "rank_position r' = int (card {k' \<in> rank_key ` exam_rows e st. k' \<le> rank_key r'})"
    using rr e k by (simp add: exam_rows_def)
qed

lemma exam_rows_refresh_keys:
  "rank_key ` exam_rows e (fst (refresh_ranks e st)) = rank_key ` exam_rows e st"
proof -
  define f :: "LeaderboardSnapshot \<Rightarrow> LeaderboardSnapshot"
    where "f = (\<lambda>r. if lb_exam_id r = e then
                   (case map_of (ranked e (leaderboard_snapshot st)) (snapshot_id r) of
                      Some n \<Rightarrow> r\<lparr>rank_position := n\<rparr>
                    | None \<Rightarrow> r)
                 else r)"
  have lb': "leaderboard_snapshot (fst (refresh_ranks e st)) = map f (leaderboard_snapshot st)"
    by (simp add: refresh_ranks_def refresh_rows_def Let_def f_def)
  have keep: "lb_exam_id (f r) = lb_exam_id r" "rank_key (f r) = rank_key r" for r
    by (simp_all add: f_def rank_key_def split: option.splits)
  have "exam_rows e (fst (refresh_ranks e st)) = f ` exam_rows e st"
    unfolding exam_rows_def lb' by (auto simp: keep(1))
  then show ?thesis by (simp add: image_image keep(2))
qed

lemma card_score_time_pairs:
  "card ((\<lambda>r. (lb_total_score r, lb_total_time_sec r)) ` A) = card (rank_key ` A)"
proof -
  have "rank_key ` A = (\<lambda>p. (- fst p, snd p)) ` ((\<lambda>r. (lb_total_score r, lb_total_time_sec r)) ` A)"
    by (simp add: image_image rank_key_def)
  moreover have "inj_on (\<lambda>p :: rat \<times> int. (- fst p, snd p)) B" for B
    by (auto simp: inj_on_def prod_eq_iff)
  ultimately show ?thesis by (simp add: card_image)
qed

text \<open>
  C1.  After the rank refresh of an exam (the snapshot ids being a primary key), for all
  entries \<open>r1\<close>, \<open>r2\<close> of that exam: equal (total_score, total_time_sec) pairs have the
  same rank_position; an entry that comes before another in the order total_score
  descending, total_time_sec ascending has a strictly smaller rank_position; when no
  entry of the exam lies strictly between them, the later one has the earlier one's
  rank_position plus one; with equal total_score, the entry with the smaller
  total_time_sec has rank_position \<le> the other's.  The rank positions of the exam are
  exactly 1, ..., n for n the number of distinct (total_score, total_time_sec) pairs.
\<close>

theorem refresh_ranks_dense:
  assumes d: "distinct (map snapshot_id (leaderboard_snapshot st))"
  shows "(\<forall>r1 \<in> exam_rows e (fst (refresh_ranks e st)).
          \<forall>r2 \<in> exam_rows e (fst (refresh_ranks e st)).
            (lb_total_score r1 = lb_total_score r2 \<and> lb_total_time_sec r1 = lb_total_time_sec r2
               \<longrightarrow> rank_position r1 = rank_position r2)
          \<and> (precedes r1 r2 \<longrightarrow> rank_position r1 < rank_position r2)
          \<and> (precedes r1 r2
               \<and> (\<forall>r \<in> exam_rows e (fst (refresh_ranks e st)).
                     \<not> (precedes r1 r \<and> precedes r r2))
               \<longrightarrow> rank_position r2 = rank_position r1 + 1)
          \<and> (lb_total_score r1 = lb_total_score r2 \<and> lb_total_time_sec r1 \<le> lb_total_time_sec r2
               \<longrightarrow> rank_position r1 \<le> rank_position r2))
       \<and> rank_position ` exam_rows e (fst (refresh_ranks e st))
           = {1 .. int (card ((\<lambda>r. (lb_total_score r, lb_total_time_sec r))
                                ` exam_rows e (fst (refresh_ranks e st))))}"
proof -
  define E where "E = exam_rows e (fst (refresh_ranks e st))"
  define K where "K = rank_key ` exam_rows e st"
  define R where "R = (\<lambda>k. card {k' \<in> K. k' \<le> k})"
  have fin: "finite K" by (simp add: K_def exam_rows_def)
  have KE: "rank_key ` E = K" unfolding E_def K_def by (rule exam_rows_refresh_keys)
  have inK: "rank_key r \<in> K" if "r \<in> E" for r
    using that KE by blast
  have rk: "rank_position r = int (R (rank_key r))" if "r \<in> E" for r
    using exam_rows_refresh(2)[OF d, of r e] that by (simp add: E_def K_def R_def)
  have same: "rank_position r1 = rank_position r2"
    if "r1 \<in> E" "r2 \<in> E"
      "lb_total_score r1 = lb_total_score r2 \<and> lb_total_time_sec r1 = lb_total_time_sec r2"
    for r1 r2
    using that rk[of r1] rk[of r2] by (simp add: rank_key_eq[symmetric])
  have strict: "rank_position r1 < rank_position r2"
    if "r1 \<in> E" "r2 \<in> E" "precedes r1 r2" for r1 r2
  proof -
    have "rank_key r1 < rank_key r2" using that(3) by (simp only: rank_key_less)
    then have "R (rank_key r1) < R (rank_key r2)"
      unfolding R_def using fin inK[OF that(2)] by (intro le_card_strict)
    then show ?thesis using rk[OF that(1)] rk[OF that(2)] by simp
  qed
  have adj: "rank_position r2 = rank_position r1 + 1"
    if "r1 \<in> E" "r2 \<in> E" "precedes r1 r2 \<and> (\<forall>r \<in> E. \<not> (precedes r1 r \<and> precedes r r2))"
    for r1 r2
  proof -
    have lt: "rank_key r1 < rank_key r2" using that(3) by (simp only: rank_key_less)
    have gap: "\<forall>k \<in> K. \<not> (rank_key r1 < k \<and> k < rank_key r2)"
    proof
      fix k assume "k \<in> K"
      then obtain r where "r \<in> E" "k = rank_key r" using KE by blast
      then show "\<not> (rank_key r1 < k \<and> k < rank_key r2)"
        using that(3) by (simp add: rank_key_less)
    qed
    have "R (rank_key r2) = Suc (R (rank_key r1))"
      unfolding R_def using fin inK[OF that(2)] lt gap by (rule le_card_adjacent)
    then show ?thesis using rk[OF that(1)] rk[OF that(2)] by simp
  qed
  have weak: "rank_position r1 \<le> rank_position r2"
    if "r1 \<in> E" "r2 \<in> E"
      "lb_total_score r1 = lb_total_score r2 \<and> lb_total_time_sec r1 \<le> lb_total_time_sec r2"
    for r1 r2
  proof (cases "lb_total_time_sec r1 = lb_total_time_sec r2")
    case True
    then show ?thesis using same[OF that(1,2)] that(3) by simp
  next
    case False
    then have "precedes r1 r2" using that(3) by (simp add: precedes_def)
    then show ?thesis using strict[OF that(1,2)] by simp
  qed
  have img: "rank_position ` E
               = {1 .. int (card ((\<lambda>r. (lb_total_score r, lb_total_time_sec r)) ` E))}"
  proof -
    have "rank_position ` E = (\<lambda>r. int (R (rank_key r))) ` E"
      by (rule image_cong) (simp_all add: rk)
    also have "\<dots> = int ` (R ` (rank_key ` E))" by (simp add: image_image)
    also have "\<dots> = int ` {1..card K}"
      unfolding KE R_def using le_card_image[OF fin] by simp
    also have "\<dots> = {1 .. int (card K)}" by (simp add: image_int_atLeastAtMost)
    also have "card K = card ((\<lambda>r. (lb_total_score r, lb_total_time_sec r)) ` E)"
      unfolding KE[symmetric] by (rule card_score_time_pairs[symmetric])
    finally show ?thesis .
  qed
  show ?thesis
    unfolding E_def[symmetric]
    using same strict adj weak img by blast
qed

text \<open>The dense ranking on the example database: exam 1 has the pairs (40, 2000) and
  (40, 3000), the latter twice; the entry of exam 2 keeps its rank.\<close>

theorem refresh_ranks_dense_witness:
  "distinct (map snapshot_id (leaderboard_snapshot example_store))
   \<and> leaderboard_snapshot (fst (refresh_ranks 1 example_store)) =
       [\<lparr>snapshot_id = 1, lb_exam_id = 1, lb_user_id = 3, lb_session_id = 7,
        lb_weighted_coding = 40, lb_weighted_quiz = 0, lb_weighted_assessment = 0,
        lb_total_score = 40, lb_total_time_sec = 3000, rank_position = 2\<rparr>,
        \<lparr>snapshot_id = 2, lb_exam_id = 1, lb_user_id = 4, lb_session_id = 8,
        lb_weighted_coding = 40, lb_weighted_quiz = 0, lb_weighted_assessment = 0,
        lb_total_score = 40, lb_total_time_sec = 2000, rank_position = 1\<rparr>,
        \<lparr>snapshot_id = 3, lb_exam_id = 1, lb_user_id = 5, lb_session_id = 9,
        lb_weighted_coding = 40, lb_weighted_quiz = 0, lb_weighted_assessment = 0,
        lb_total_score = 40, lb_total_time_sec = 3000, rank_position = 2\<rparr>,
        \<lparr>snapshot_id = 4, lb_exam_id = 2, lb_user_id = 3, lb_session_id = 10,
        lb_weighted_coding = 45, lb_weighted_quiz = 0, lb_weighted_assessment = 0,
        lb_total_score = 45, lb_total_time_sec = 100, rank_position = 1\<rparr>]
   \<and> precedes
        \<lparr>snapshot_id = 2, lb_exam_id = 1, lb_user_id = 4, lb_session_id = 8,
        lb_weighted_coding = 40, lb_weighted_quiz = 0, lb_weighted_assessment = 0,
        lb_total_score = 40, lb_total_time_sec = 2000, rank_position = 1\<rparr>
        \<lparr>snapshot_id = 1, lb_exam_id = 1, lb_user_id = 3, lb_session_id = 7,
        lb_weighted_coding = 40, lb_weighted_quiz = 0, lb_weighted_assessment = 0,
        lb_total_score = 40, lb_total_time_sec = 3000, rank_position = 2\<rparr>
   \<and> rank_position
        \<lparr>snapshot_id = 2, lb_exam_id = 1, lb_user_id = 4, lb_session_id = 8,
        lb_weighted_coding = 40, lb_weighted_quiz = 0, lb_weighted_assessment = 0,
        lb_total_score = 40, lb_total_time_sec = 2000, rank_position = 1\<rparr>
       < rank_position
        \<lparr>snapshot_id = 1, lb_exam_id = 1, lb_user_id = 3, lb_session_id = 7,
        lb_weighted_coding = 40, lb_weighted_quiz = 0, lb_weighted_assessment = 0,
        lb_total_score = 40, lb_total_time_sec = 3000, rank_position = 2\<rparr>
   \<and> rank_position ` exam_rows 1 (fst (refresh_ranks 1 example_store))
           = {1 .. int (card ((\<lambda>r. (lb_total_score r, lb_total_time_sec r))
                                ` exam_rows 1 (fst (refresh_ranks 1 example_store))))}"
proof -
  let ?r1 = "\<lparr>snapshot_id = 1, lb_exam_id = 1, lb_user_id = 3, lb_session_id = 7,
        lb_weighted_coding = 40, lb_weighted_quiz = 0, lb_weighted_assessment = 0,
        lb_total_score = 40, lb_total_time_sec = 3000, rank_position = 2\<rparr>"
  let ?r2 = "\<lparr>snapshot_id = 2, lb_exam_id = 1, lb_user_id = 4, lb_session_id = 8,
        lb_weighted_coding = 40, lb_weighted_quiz = 0, lb_weighted_assessment = 0,
        lb_total_score = 40, lb_total_time_sec = 2000, rank_position = 1\<rparr>"
  have d: "distinct (map snapshot_id (leaderboard_snapshot example_store))"
    by (simp add: example_store_def)
  have v: "leaderboard_snapshot (fst (refresh_ranks 1 example_store)) =
       [?r1,
        ?r2,
        \<lparr>snapshot_id = 3, lb_exam_id = 1, lb_user_id = 5, lb_session_id = 9,
        lb_weighted_coding = 40, lb_weighted_quiz = 0, lb_weighted_assessment = 0,
        lb_total_score = 40, lb_total_time_sec = 3000, rank_position = 2\<rparr>,
        \<lparr>snapshot_id = 4, lb_exam_id = 2, lb_user_id = 3, lb_session_id = 10,
        lb_weighted_coding = 45, lb_weighted_quiz = 0, lb_weighted_assessment = 0,
        lb_total_score = 45, lb_total_time_sec = 100, rank_position = 1\<rparr>]"
    by code_simp
  have m: "?r1 \<in> exam_rows 1 (fst (refresh_ranks 1 example_store))"
    "?r2 \<in> exam_rows 1 (fst (refresh_ranks 1 example_store))"
    unfolding exam_rows_def v by simp_all
  have p: "precedes ?r2 ?r1" by (simp add: precedes_def)
  note t = refresh_ranks_dense[OF d, of 1]
  from t m p have "rank_position ?r2 < rank_position ?r1" by blast
  with t d v p show ?thesis by blast
qed

text \<open>
  C9.  The rank refresh is idempotent: a second run right after a first one returns the
  same database (every field of every entry) and the same count.
\<close>

theorem refresh_ranks_idempotent:
  "refresh_ranks e (fst (refresh_ranks e st)) = refresh_ranks e st
   \<and> recalculate_all_ranks e (fst (recalculate_all_ranks e st)) = recalculate_all_ranks e st"
proof -
  define lb where "lb = leaderboard_snapshot st"
  define f :: "LeaderboardSnapshot \<Rightarrow> LeaderboardSnapshot"
    where "f = (\<lambda>r. if lb_exam_id r = e then
                   (case map_of (ranked e lb) (snapshot_id r) of
                      Some n \<Rightarrow> r\<lparr>rank_position := n\<rparr>
                    | None \<Rightarrow> r)
                 else r)"
  have keep: "lb_exam_id (f r) = lb_exam_id r" "rank_key (f r) = rank_key r"
    "snapshot_id (f r) = snapshot_id r" for r
    by (simp_all add: f_def rank_key_def split: option.splits)
  have ff: "f (f r) = f r" for r
    by (simp add: f_def split: option.splits)
  have rows1: "fst (refresh_rows e lb) = map f lb"
    by (simp add: refresh_rows_def Let_def f_def)
  have "filter (\<lambda>r. lb_exam_id r = e) (map f lb) = map f (filter (\<lambda>r. lb_exam_id r = e) lb)"
    by (simp add: filter_map comp_def keep(1))
  then have "sort_key rank_key (filter (\<lambda>r. lb_exam_id r = e) (map f lb))
          = map f (sort_key rank_key (filter (\<lambda>r. lb_exam_id r = e) lb))"
    by (simp add: sort_key_map_keep[of rank_key f, OF keep(2)])
  then have rk: "ranked e (map f lb) = ranked e lb"
    by (simp add: ranked_def Let_def comp_def keep)
  have "refresh_rows e (map f lb) = refresh_rows e lb"
    unfolding refresh_rows_def Let_def rk
    by (simp add: comp_def keep f_def[symmetric] ff filter_map)
  then have "refresh_rows e (fst (refresh_rows e lb)) = refresh_rows e lb"
    by (simp only: rows1)
  then have "refresh_ranks e (fst (refresh_ranks e st)) = refresh_ranks e st"
    by (simp add: refresh_ranks_def lb_def case_prod_beta)
  then show ?thesis by (simp add: recalculate_all_ranks_def)
qed

section \<open>Cache invalidation\<close>

lemma digit_char_not_colon: "digit_char d \<noteq> CHR '':''" "CHR '':'' \<noteq> digit_char d"
  by (simp_all add: digit_char_def)

lemma colon_notin_str_nat: "CHR '':'' \<notin> set (str_nat n)"
proof (induction n rule: str_nat.induct)
  case (1 n)
  show ?case
  proof (cases "n < 10")
    case True
    then show ?thesis by (subst str_nat.simps) (simp add: digit_char_not_colon)
  next
    case False
    then show ?thesis using "1.IH" by (subst str_nat.simps) (simp add: digit_char_not_colon)
  qed
qed

lemma colon_notin_str_int: "CHR '':'' \<notin> set (str_int i)"
  by (simp add: str_int_def colon_notin_str_nat)

lemma invalidation_key_neq_page_key: "invalidation_key e \<noteq> page_cache_key e' page per_page"
proof
  assume "invalidation_key e = page_cache_key e' page per_page"
  then have "str_int e = str_int e' @ '':p'' @ str_int page @ '':pp'' @ str_int per_page"
    by (simp add: invalidation_key_def page_cache_key_def)
  then have "set (str_int e) = set (str_int e' @ '':p'' @ str_int page @ '':pp'' @ str_int per_page)"
    by simp
  then have "CHR '':'' \<in> set (str_int e)" by simp
  then show False using colon_notin_str_int by blast
qed

lemma cache_get_delete_other: "k \<noteq> k' \<Longrightarrow> cache_get k (cache_delete k' c) = cache_get k c"
  unfolding cache_get_def cache_delete_def
  by (induction c) auto

lemma cache_get_set_same: "cache_get k (cache_set k v c) = Some v"
  by (simp add: cache_get_def cache_set_def)

text \<open>
  C10.  The key deleted by the invalidation signal of exam \<open>e\<close> is the string
  \<^verbatim>\<open>leaderboard:exam:{e}\<close>; it differs from every key \<^verbatim>\<open>leaderboard:exam:{e'}:p{page}:pp{per_page}\<close>
  under which the reader caches a page, for all exams, pages and page sizes.  So the
  invalidation leaves every cached page where it is: the lookup of a page key gives the
  same result before and after, and a page the reader has just stored is still there
  after the invalidation.
\<close>

theorem invalidation_never_hits_pages:
  "invalidation_key e = ''leaderboard:exam:'' @ str_int e
   \<and> page_cache_key e' page per_page
       = ''leaderboard:exam:'' @ str_int e' @ '':p'' @ str_int page @ '':pp'' @ str_int per_page
   \<and> invalidation_key e \<noteq> page_cache_key e' page per_page
   \<and> cache_get (page_cache_key e' page per_page) (cache (invalidate_leaderboard_cache e st))
       = cache_get (page_cache_key e' page per_page) (cache st)
   \<and> cache_get (page_cache_key e (max 1 page) (min 200 (max 1 per_page)))
        (cache (invalidate_leaderboard_cache e (store_page e page per_page payload st)))
       = Some payload"
proof -
  have n: "page_cache_key a b c \<noteq> invalidation_key e" for a b c
    using invalidation_key_neq_page_key[of e a b c] by simp
  show ?thesis
    by (simp add: invalidation_key_neq_page_key invalidate_leaderboard_cache_def store_page_def
        cache_get_delete_other[OF n] cache_get_set_same)
      (simp add: invalidation_key_def page_cache_key_def)
qed

text \<open>On the example database the cached first page of exam 1 survives the invalidation
  of exam 1.\<close>

lemma cached_page_survives_example:
  "invalidation_key 1 = ''leaderboard:exam:1''
   \<and> page_cache_key 1 1 50 = ''leaderboard:exam:1:p1:pp50''
   \<and> cache (invalidate_leaderboard_cache 1 example_store) = [(''leaderboard:exam:1:p1:pp50'', ''page 1'')]"
  by code_simp

section \<open>The session lookup of an attempt\<close>

lemma sbind_Inl: "sbind (Inl e) f = Inl e"
  by (simp add: sbind_def)

lemma session_lookup_raises:
  "exec ev LockSession (scalar_one_joined rows)
     = Inl (case ev LockSession of
              Some e \<Rightarrow> e
            | None \<Rightarrow> if rows = [] then NoResultFound else InvalidRequestError)"
  by (simp add: exec_def scalar_one_joined_def split: option.splits list.splits)

text \<open>Every attempt ends at its first step: with what the storage layer raises at the
  session select, else with the error of \<^verbatim>\<open>scalar_one()\<close>.\<close>

lemma atomic_txn_step1:
  "atomic_txn ev st sid mtype raw mx tsec who
     = Inl (session_lookup_error ev st sid)"
  unfolding atomic_txn_def session_lookup_raises sbind_Inl session_lookup_error_def ..

lemma pre_commit_failure:
  "atomic_txn ev st sid mtype raw mx tsec who = Inl e
     \<Longrightarrow> atomic_score_update ev st sid mtype raw mx tsec who = (Inl e, st)"
  by (simp add: atomic_score_update_def)

lemma attempt_step1:
  "atomic_score_update ev st sid mtype raw mx tsec who
     = (Inl (session_lookup_error ev st sid), st)"
  by (rule pre_commit_failure) (rule atomic_txn_step1)

lemma absent_session_error:
  assumes "sid \<notin> session_id ` set (exam_sessions st)"
  shows "session_lookup_error ev st sid
           = (case ev LockSession of Some e \<Rightarrow> e | None \<Rightarrow> NoResultFound)"
proof -
  have "filter (\<lambda>s. session_id s = sid) (exam_sessions st) = []"
    using assms by (auto simp: filter_empty_conv)
  then show ?thesis by (simp add: session_lookup_error_def)
qed

lemma present_session_error:
  assumes "sid \<in> session_id ` set (exam_sessions st)"
  shows "session_lookup_error ev st sid
           = (case ev LockSession of Some e \<Rightarrow> e | None \<Rightarrow> InvalidRequestError)"
proof -
  have "filter (\<lambda>s. session_id s = sid) (exam_sessions st) \<noteq> []"
    using assms by (auto simp: filter_empty_conv)
  then show ?thesis by (simp add: session_lookup_error_def)
qed

section \<open>The retry loop\<close>

lemma attempts_list: "[1..<MAX_RETRIES + 1] = [1, 2, 3]"
  by code_simp

lemma validate_ok: "mtype \<in> set VALID_MODULES \<Longrightarrow> validate_module_type mtype = Inr ()"
  by (simp add: validate_module_type_def)

lemma is_operational_simps:
  "is_operational (OperationalError c)"
  "\<not> is_operational NoResultFound"
  "\<not> is_operational InvalidRequestError"
  "\<not> is_operational ValueError"
  "\<not> is_operational RuntimeError"
  by (simp_all add: is_operational_def)

lemma submit_attempts_bound:
  "snd (snd (submit_attempts as evs st sid mtype raw mx tsec who)) \<le> length as"
proof (induction as arbitrary: st)
  case Nil
  show ?case by simp
next
  case (Cons a as)
  show ?case
  proof (cases "atomic_score_update (evs a) st sid mtype raw mx tsec who")
    case (Pair res st1)
    show ?thesis
    proof (cases res)
      case (Inr entry)
      then show ?thesis using Pair by simp
    next
      case (Inl e)
      show ?thesis
        using Pair Inl Cons.IH[of st1]
        by (cases "submit_attempts as evs st1 sid mtype raw mx tsec who") auto
    qed
  qed
qed

lemma submit_valid:
  assumes "mtype \<in> set VALID_MODULES"
  shows "submit_module_score evs st sid mtype raw mx tsec who
           = submit_attempts [1, 2, 3] evs st sid mtype raw mx tsec who"
  unfolding submit_module_score_def attempts_list validate_ok[OF assms] by simp

lemma attempt_fatal:
  "atomic_score_update (evs a) st sid mtype raw mx tsec who = (Inl e, st')
     \<Longrightarrow> \<not> is_operational e
     \<Longrightarrow> submit_attempts (a # rest) evs st sid mtype raw mx tsec who = (Inl e, st', 1)"
  by simp

lemma attempt_exhausted:
  "atomic_score_update (evs a) st sid mtype raw mx tsec who = (Inl (OperationalError c), st')
     \<Longrightarrow> a = MAX_RETRIES
     \<Longrightarrow> submit_attempts (a # rest) evs st sid mtype raw mx tsec who = (Inl RuntimeError, st', 1)"
  by (simp add: is_operational_simps)

lemma attempt_numbers: "(1::nat) \<noteq> MAX_RETRIES" "(2::nat) \<noteq> MAX_RETRIES" "(3::nat) = MAX_RETRIES"
  by (simp_all add: MAX_RETRIES_def)

lemma retry_step:
  assumes "atomic_txn (evs a) st sid mtype raw mx tsec who = Inl (OperationalError c)"
    and "a \<noteq> MAX_RETRIES"
    and "submit_attempts rest evs st sid mtype raw mx tsec who = (res, st', n)"
  shows "submit_attempts (a # rest) evs st sid mtype raw mx tsec who = (res, st', Suc n)"
  using assms(2,3) by (simp add: pre_commit_failure[OF assms(1)] is_operational_simps)

text \<open>
  C6 as the specification states it fails in its last part: the loop recognises a conflict
  by the class \<open>OperationalError\<close> alone, and the storage layer raises that class for
  failures that have nothing to do with locks as well.  On the example database a
  connection lost at the session select of every attempt is retried twice and then
  surfaced as \<open>RuntimeError\<close> (retries exhausted), after three attempts; lost at the first
  attempt only, the call goes on to a second attempt.
\<close>

theorem retry_policy_counterexample:
  "\<not> lock_conflict (OperationalError ServerGone)
   \<and> atomic_score_update (\<lambda>s. if s = LockSession then Some (OperationalError ServerGone) else None)
        example_store 7 ''coding'' 90 100 100 0
       = (Inl (OperationalError ServerGone), example_store)
   \<and> submit_module_score (\<lambda>n s. if s = LockSession then Some (OperationalError ServerGone) else None)
        example_store 7 ''coding'' 90 100 100 0
       = (Inl RuntimeError, example_store, 3)
   \<and> submit_module_score
        (\<lambda>n s. if n = 1 \<and> s = LockSession then Some (OperationalError ServerGone) else None)
        example_store 99 ''coding'' 90 100 100 0
       = (Inl NoResultFound, example_store, 2)"
  by code_simp

text \<open>
  C6, amended.  For a valid module type.  An attempt that ends before its commit leaves the
  committed state as it was.  When it ends so in an \<open>OperationalError\<close>, whatever the cause
  (a lock-wait timeout, a deadlock, or a failure unrelated to locks), the whole sequence is
  run again from step 1.  Three such attempts in a row end the call with \<open>RuntimeError\<close>
  (retries exhausted), the state unchanged, after exactly three attempts.  An attempt that
  fails with an exception of any other class ends the call at once with that exception: no
  further attempt is made.  In every case at most three attempts are made.
\<close>

theorem retry_policy:
  assumes v: "mtype \<in> set VALID_MODULES"
  shows
  "(atomic_txn (evs 1) st sid mtype raw mx tsec who = Inl e
      \<longrightarrow> atomic_score_update (evs 1) st sid mtype raw mx tsec who = (Inl e, st))
   \<and> (atomic_txn (evs 1) st sid mtype raw mx tsec who = Inl (OperationalError c1)
      \<and> atomic_txn (evs 2) st sid mtype raw mx tsec who = Inl (OperationalError c2)
      \<and> atomic_txn (evs 3) st sid mtype raw mx tsec who = Inl (OperationalError c3)
      \<longrightarrow> submit_module_score evs st sid mtype raw mx tsec who = (Inl RuntimeError, st, 3))
   \<and> (\<not> is_operational e
      \<and> atomic_score_update (evs 1) st sid mtype raw mx tsec who = (Inl e, st')
      \<longrightarrow> submit_module_score evs st sid mtype raw mx tsec who = (Inl e, st', 1))
   \<and> (\<not> is_operational e
      \<and> atomic_txn (evs 1) st sid mtype raw mx tsec who = Inl (OperationalError c1)
      \<and> atomic_score_update (evs 2) st sid mtype raw mx tsec who = (Inl e, st')
      \<longrightarrow> submit_module_score evs st sid mtype raw mx tsec who = (Inl e, st', 2))
   \<and> (\<not> is_operational e
      \<and> atomic_txn (evs 1) st sid mtype raw mx tsec who = Inl (OperationalError c1)
      \<and> atomic_txn (evs 2) st sid mtype raw mx tsec who = Inl (OperationalError c2)
      \<and> atomic_score_update (evs 3) st sid mtype raw mx tsec who = (Inl e, st')
      \<longrightarrow> submit_module_score evs st sid mtype raw mx tsec who = (Inl e, st', 3))
   \<and> snd (snd (submit_module_score evs st sid mtype raw mx tsec who)) \<le> 3"
proof -
  let ?txn = "\<lambda>i. atomic_txn (evs i) st sid mtype raw mx tsec who"
  let ?upd = "\<lambda>i. atomic_score_update (evs i) st sid mtype raw mx tsec who"
  let ?sub = "submit_module_score evs st sid mtype raw mx tsec who"
  note sv = submit_valid[OF v, of evs st sid raw mx tsec who]
  note n1 = attempt_numbers(1) and n2 = attempt_numbers(2) and n3 = attempt_numbers(3)
  note ex3 = attempt_exhausted[where evs = evs and a = 3]
  note ft1 = attempt_fatal[where evs = evs and a = 1]
  note ft2 = attempt_fatal[where evs = evs and a = 2]
  note ft3 = attempt_fatal[where evs = evs and a = 3]
  note rs1 = retry_step[where evs = evs and a = 1]
  note rs2 = retry_step[where evs = evs and a = 2]
  note pc3 = pre_commit_failure[where ev = "evs 3"]
  have bound: "snd (snd ?sub) \<le> 3"
    unfolding sv
    using submit_attempts_bound[of "[1, 2, 3]" evs st sid mtype raw mx tsec who]
    by simp
  have p0: "?upd 1 = (Inl e, st)" if h: "?txn 1 = Inl e"
    using h by (rule pre_commit_failure)
  have p1: "?sub = (Inl RuntimeError, st, 3)"
    if h: "?txn 1 = Inl (OperationalError c1) \<and> ?txn 2 = Inl (OperationalError c2)
        \<and> ?txn 3 = Inl (OperationalError c3)"
  proof -
    from h have t1: "?txn 1 = Inl (OperationalError c1)"
      and t2: "?txn 2 = Inl (OperationalError c2)"
      and t3: "?txn 3 = Inl (OperationalError c3)" by blast+
    note a3 = ex3[OF pc3[OF t3] n3, where rest = "[]"]
    note a2 = rs2[OF t2 n2 a3]
    note a1 = rs1[OF t1 n1 a2]
    show ?thesis unfolding sv a1 by simp
  qed
  have p5: "?sub = (Inl e, st', 1)" if h: "\<not> is_operational e \<and> ?upd 1 = (Inl e, st')"
  proof -
    from h have ne: "\<not> is_operational e" and u1: "?upd 1 = (Inl e, st')" by blast+
    show ?thesis unfolding sv ft1[OF u1 ne] ..
  qed
  have p6: "?sub = (Inl e, st', 2)"
    if h: "\<not> is_operational e \<and> ?txn 1 = Inl (OperationalError c1) \<and> ?upd 2 = (Inl e, st')"
  proof -
    from h have ne: "\<not> is_operational e" and t1: "?txn 1 = Inl (OperationalError c1)"
      and u2: "?upd 2 = (Inl e, st')" by blast+
    note a1 = rs1[OF t1 n1 ft2[OF u2 ne, where rest = "[3]"]]
    show ?thesis unfolding sv a1 by simp
  qed
  have p7: "?sub = (Inl e, st', 3)"
    if h: "\<not> is_operational e \<and> ?txn 1 = Inl (OperationalError c1)
        \<and> ?txn 2 = Inl (OperationalError c2) \<and> ?upd 3 = (Inl e, st')"
  proof -
    from h have ne: "\<not> is_operational e" and t1: "?txn 1 = Inl (OperationalError c1)"
      and t2: "?txn 2 = Inl (OperationalError c2)" and u3: "?upd 3 = (Inl e, st')" by blast+
    note a1 = rs1[OF t1 n1 rs2[OF t2 n2 ft3[OF u3 ne, where rest = "[]"]]]
    show ?thesis unfolding sv a1 by simp
  qed
  from p0 p1 p5 p6 p7 bound show ?thesis by blast
qed

text \<open>On the example database: lock-wait timeouts at the session select of every attempt
  exhaust the three attempts; after a deadlock at the session select of the first attempt,
  the second attempt finds no session 99 and ends the call.\<close>

theorem retry_policy_witness:
  "''coding'' \<in> set VALID_MODULES
   \<and> atomic_txn (\<lambda>s. if s = LockSession then Some (OperationalError LockWaitTimeout) else None)
        example_store 7 ''coding'' 90 100 100 0 = Inl (OperationalError LockWaitTimeout)
   \<and> submit_module_score
        (\<lambda>n s. if s = LockSession then Some (OperationalError LockWaitTimeout) else None)
        example_store 7 ''coding'' 90 100 100 0 = (Inl RuntimeError, example_store, 3)
   \<and> \<not> is_operational NoResultFound
   \<and> submit_module_score
        (\<lambda>n s. if n = 1 \<and> s = LockSession then Some (OperationalError Deadlock) else None)
        example_store 99 ''coding'' 90 100 100 0 = (Inl NoResultFound, example_store, 2)"
proof -
  have v: "''coding'' \<in> set VALID_MODULES" by (simp add: VALID_MODULES_def)
  have a: "99 \<notin> session_id ` set (exam_sessions example_store)"
    by (simp add: example_store_def)
  have c: "atomic_txn (\<lambda>s. if s = LockSession then Some (OperationalError LockWaitTimeout) else None)
        example_store 7 ''coding'' 90 100 100 0 = Inl (OperationalError LockWaitTimeout)"
    by (simp add: atomic_txn_step1 session_lookup_error_def)
  have d1: "atomic_txn
        (\<lambda>s. if (1::nat) = 1 \<and> s = LockSession then Some (OperationalError Deadlock) else None)
        example_store 99 ''coding'' 90 100 100 0 = Inl (OperationalError Deadlock)"
    by (simp add: atomic_txn_step1 session_lookup_error_def)
  have d2: "atomic_score_update
        (\<lambda>s. if (2::nat) = 1 \<and> s = LockSession then Some (OperationalError Deadlock) else None)
        example_store 99 ''coding'' 90 100 100 0 = (Inl NoResultFound, example_store)"
    by (simp add: attempt_step1 absent_session_error[OF a])
  have n: "\<not> is_operational NoResultFound" by (rule is_operational_simps)
  note t1 = retry_policy[OF v,
      where evs = "\<lambda>n s. if s = LockSession then Some (OperationalError LockWaitTimeout) else None"
      and st = example_store and sid = 7 and raw = 90 and mx = 100 and tsec = 100 and who = 0
      and ?c1.0 = LockWaitTimeout and ?c2.0 = LockWaitTimeout and ?c3.0 = LockWaitTimeout]
  note t2 = retry_policy[OF v,
      where evs = "\<lambda>n s. if n = 1 \<and> s = LockSession then Some (OperationalError Deadlock) else None"
      and st = example_store and sid = 99 and raw = 90 and mx = 100 and tsec = 100 and who = 0
      and e = NoResultFound and st' = example_store and ?c1.0 = Deadlock]
  have r1: "submit_module_score
        (\<lambda>n s. if s = LockSession then Some (OperationalError LockWaitTimeout) else None)
        example_store 7 ''coding'' 90 100 100 0 = (Inl RuntimeError, example_store, 3)"
    using t1 c by blast
  have r2: "submit_module_score
        (\<lambda>n s. if n = 1 \<and> s = LockSession then Some (OperationalError Deadlock) else None)
        example_store 99 ''coding'' 90 100 100 0 = (Inl NoResultFound, example_store, 2)"
    using t2 d1 d2 n by blast
  from v c n r1 r2 show ?thesis by blast
qed

section \<open>Rejected submissions\<close>

subsection \<open>Invalid input\<close>

text \<open>
  C5 as the specification states it fails: the pipeline checks the module type and
  nothing else.  On the example database a quiz submission with raw_score = -5 passes the
  validation and goes on to the session select, where it ends like any other submission:
  for session 7 with the error of \<^verbatim>\<open>scalar_one()\<close>, for the unknown session 99 with
  \<open>NoResultFound\<close>, in neither case with \<open>ValueError\<close>.  With raw_score = 150 against
  max_score = 100 and lock-wait timeouts at the session select, the attempt is repeated
  twice and the call ends in \<open>RuntimeError\<close> after three attempts.
\<close>

theorem invalid_input_counterexample:
  "validate_module_type ''quiz'' = Inr ()
   \<and> submit_module_score (\<lambda>_ _. None) example_store 7 ''quiz'' (- 5) 100 10 0
       = (Inl InvalidRequestError, example_store, 1)
   \<and> submit_module_score (\<lambda>_ _. None) example_store 99 ''quiz'' (- 5) 100 10 0
       = (Inl NoResultFound, example_store, 1)
   \<and> submit_module_score
        (\<lambda>n s. if s = LockSession then Some (OperationalError LockWaitTimeout) else None)
        example_store 7 ''quiz'' 150 100 10 0
       = (Inl RuntimeError, example_store, 3)
   \<and> fst (submit_module_score (\<lambda>_ _. None) example_store 7 ''quiz'' (- 5) 100 10 0)
       \<noteq> Inl ValueError"
  by code_simp

text \<open>
  C5, amended.  A call with a module type outside coding, quiz, assessment fails with
  \<open>ValueError\<close> before any attempt is made, the state unchanged.  The bounds on the
  scores are not checked by the pipeline; they are checked in front of it: the score
  endpoint validates the request with \<^verbatim>\<open>SubmitScoreSchema\<close> and answers 422, without calling
  the pipeline and with the state unchanged, when the module type is invalid, raw_score
  is negative, max_score is not positive, or raw_score exceeds max_score.
\<close>

theorem invalid_input_rejected:
  "(mtype \<notin> set VALID_MODULES \<longrightarrow>
      submit_module_score evs st sid mtype raw mx tsec who = (Inl ValueError, st, 0))
   \<and> (mtype \<notin> set VALID_MODULES \<or> raw < 0 \<or> mx \<le> 0 \<or> mx < raw \<longrightarrow>
      submit_score evs st sid mtype raw mx tsec = (422, st))"
  by (auto simp: submit_module_score_def validate_module_type_def submit_score_def
      SubmitScoreSchema_load_def VALID_MODULES_def)

text \<open>The rejection of an unknown module type by the pipeline, and of the three score
  violations by the endpoint, on the example database.\<close>

theorem invalid_input_rejected_witness:
  "''essay'' \<notin> set VALID_MODULES
   \<and> submit_module_score (\<lambda>_ _. None) example_store 7 ''essay'' 50 100 10 0
       = (Inl ValueError, example_store, 0)
   \<and> submit_score (\<lambda>_ _. None) example_store 7 ''quiz'' (- 5) 100 10 = (422, example_store)
   \<and> submit_score (\<lambda>_ _. None) example_store 7 ''quiz'' 150 100 10 = (422, example_store)
   \<and> submit_score (\<lambda>_ _. None) example_store 7 ''quiz'' 0 0 10 = (422, example_store)"
proof -
  have v: "''essay'' \<notin> set VALID_MODULES" by (simp add: VALID_MODULES_def)
  note t = invalid_input_rejected[where evs = "\<lambda>_ _. None" and st = example_store and sid = 7]
  show ?thesis
    using v t[of "''essay''" 50 100 10 0] t[of "''quiz''" "- 5" 100 10 0]
      t[of "''quiz''" 150 100 10 0] t[of "''quiz''" 0 0 10 0]
    by simp
qed

subsection \<open>Unknown session\<close>

lemma absent_session_attempt:
  assumes "sid \<notin> session_id ` set (exam_sessions st)"
  shows "atomic_score_update ev st sid mtype raw mx tsec who
           = (Inl (case ev LockSession of Some e \<Rightarrow> e | None \<Rightarrow> NoResultFound), st)"
  by (simp only: attempt_step1 absent_session_error[OF assms])

lemma all_attempts_fail:
  assumes "as \<noteq> []" and "last as = MAX_RETRIES"
  shows "\<exists>e n. submit_attempts as evs st sid mtype raw mx tsec who = (Inl e, st, n)"
  using assms
proof (induction as)
  case Nil
  then show ?case by simp
next
  case (Cons a as)
  define e where "e = session_lookup_error (evs a) st sid"
  have e: "atomic_score_update (evs a) st sid mtype raw mx tsec who = (Inl e, st)"
    unfolding e_def by (rule attempt_step1)
  show ?case
  proof (cases "is_operational e")
    case False
    then show ?thesis using e by simp
  next
    case True
    show ?thesis
    proof (cases "a = MAX_RETRIES")
      case True
      then show ?thesis using e \<open>is_operational e\<close> by simp
    next
      case False
      then have "as \<noteq> []" "last as = MAX_RETRIES" using Cons.prems by (auto split: if_splits)
      from Cons.IH[OF this] obtain e' n
        where "submit_attempts as evs st sid mtype raw mx tsec who = (Inl e', st, n)" by blast
      then show ?thesis using e True False by simp
    qed
  qed
qed

text \<open>
  C7.  A call with a valid module type and a session_id that no ExamSession row has ends
  in an error with the state unchanged, whatever the storage layer does; when the
  storage layer raises nothing at the session lookup of the first attempt, the error is
  \<open>NoResultFound\<close> (the session is not found) and it is raised by the first attempt, with
  no retry.
\<close>

theorem unknown_session_rejected:
  assumes v: "mtype \<in> set VALID_MODULES"
    and absent: "sid \<notin> session_id ` set (exam_sessions st)"
  shows "(\<exists>e n. submit_module_score evs st sid mtype raw mx tsec who = (Inl e, st, n))
         \<and> (evs 1 LockSession = None \<longrightarrow>
              submit_module_score evs st sid mtype raw mx tsec who = (Inl NoResultFound, st, 1))"
proof -
  note sv = submit_valid[OF v, of evs st sid raw mx tsec who]
  have "\<exists>e n. submit_attempts [1, 2, 3] evs st sid mtype raw mx tsec who = (Inl e, st, n)"
    by (rule all_attempts_fail) (simp_all add: MAX_RETRIES_def)
  then have A: "\<exists>e n. submit_module_score evs st sid mtype raw mx tsec who = (Inl e, st, n)"
    by (simp only: sv)
  have B: "submit_module_score evs st sid mtype raw mx tsec who = (Inl NoResultFound, st, 1)"
    if "evs 1 LockSession = None"
  proof -
    have "atomic_score_update (evs 1) st sid mtype raw mx tsec who = (Inl NoResultFound, st)"
      using absent_session_attempt[OF absent, of "evs 1"] that by simp
    from attempt_fatal[where evs = evs and a = 1, OF this is_operational_simps(2), of "[2, 3]"]
    show ?thesis unfolding sv by simp
  qed
  from A B show ?thesis by blast
qed

text \<open>Session 99 does not exist in the example database.\<close>

theorem unknown_session_rejected_witness:
  "''coding'' \<in> set VALID_MODULES
   \<and> 99 \<notin> session_id ` set (exam_sessions example_store)
   \<and> submit_module_score (\<lambda>_ _. None) example_store 99 ''coding'' 50 100 10 0
       = (Inl NoResultFound, example_store, 1)"
proof -
  have v: "''coding'' \<in> set VALID_MODULES" by (simp add: VALID_MODULES_def)
  have a: "99 \<notin> session_id ` set (exam_sessions example_store)"
    by (simp add: example_store_def)
  from unknown_session_rejected[OF v a, of "\<lambda>_ _. None" 50 100 10 0] v a
  show ?thesis by simp
qed

section \<open>Submissions for an existing session\<close>

text \<open>No call changes the committed state or returns a leaderboard entry: every attempt
  ends at the session lookup.\<close>

lemma submission_never_commits:
  "\<exists>e n. submit_module_score evs st sid mtype raw mx tsec who = (Inl e, st, n)"
proof (cases "mtype \<in> set VALID_MODULES")
  case True
  have "\<exists>e n. submit_attempts [1, 2, 3] evs st sid mtype raw mx tsec who = (Inl e, st, n)"
    by (rule all_attempts_fail) (simp_all add: MAX_RETRIES_def)
  then show ?thesis by (simp only: submit_valid[OF True])
next
  case False
  then show ?thesis by (simp add: submit_module_score_def validate_module_type_def)
qed

text \<open>When the session exists and the storage layer raises nothing at the session select of
  the first attempt, the call ends there with \<open>InvalidRequestError\<close>.\<close>

lemma existing_session_raises:
  assumes v: "mtype \<in> set VALID_MODULES"
    and present: "sid \<in> session_id ` set (exam_sessions st)"
    and quiet: "evs 1 LockSession = None"
  shows "submit_module_score evs st sid mtype raw mx tsec who = (Inl InvalidRequestError, st, 1)"
proof -
  have "atomic_score_update (evs 1) st sid mtype raw mx tsec who = (Inl InvalidRequestError, st)"
    using quiet by (simp add: attempt_step1 present_session_error[OF present])
  from attempt_fatal[where evs = evs and a = 1, OF this is_operational_simps(3), of "[2, 3]"]
  show ?thesis unfolding submit_valid[OF v] by simp
qed

text \<open>
  C8 at a concrete input.  Session 7 of the example database has a coding row with raw
  score 80 and version 1.  Resubmitting coding with raw score 80, with a storage layer that
  raises nothing, ends in \<open>InvalidRequestError\<close> at the session lookup of the first attempt:
  the version of the row stays 1, no audit entry is appended, and the score endpoint
  answers 500.  A first submission of the quiz for the same session ends the same way:
  no row is created.
\<close>

theorem resubmission_raises_at_session_lookup:
  "submit_module_score (\<lambda>_ _. None) example_store 7 ''coding'' 80 100 3000 0
     = (Inl InvalidRequestError, example_store, 1)
   \<and> map version (filter (\<lambda>ms. ms_session_id ms = 7 \<and> module_type ms = ''coding'')
        (module_scores (fst (snd (submit_module_score (\<lambda>_ _. None) example_store 7
           ''coding'' 80 100 3000 0))))) = [1]
   \<and> length (score_audit_log (fst (snd (submit_module_score (\<lambda>_ _. None) example_store 7
           ''coding'' 80 100 3000 0))))
       = length (score_audit_log example_store)
   \<and> submit_score (\<lambda>_ _. None) example_store 7 ''coding'' 80 100 3000 = (500, example_store)
   \<and> submit_module_score (\<lambda>_ _. None) example_store 7 ''quiz'' 90 100 500 0
       = (Inl InvalidRequestError, example_store, 1)"
  by code_simp

end
